theory Spec2Isabelle
  imports Main
begin

section \<open>Trusted clusters of the auth server (lib/auth/trustedcluster.go)\<close>

text \<open>
  The functions of the file are embedded as functions of the backend state: a function
  that writes takes the state and returns the state it leaves.  \<^verbatim>\<open>trace.Wrap\<close> keeps
  the kind and the message of an error and is the identity here.  Log lines, the
  request context and the user field of the audit events have no part in what the
  functions return or store, and are left out.
\<close>

subsection \<open>Errors (package trace)\<close>

text \<open>
  The error kinds the file inspects or constructs.  \<open>Aggregate\<close> is what
  \<^verbatim>\<open>trace.NewAggregate\<close> builds; \<open>RuntimePanic\<close> stands for a Go run-time panic
  (an index out of range), which no caller in this file recovers from.
\<close>

datatype err_kind =
  NotFound | AlreadyExists | BadParameter | AccessDenied | InvalidTransition
  | ConnectionProblem | Internal | RuntimePanic

datatype error = Err err_kind string | Aggregate "error list"

fun IsNotFound :: "error option \<Rightarrow> bool" where
  "IsNotFound (Some (Err NotFound m)) = True"
| "IsNotFound e = False"

text \<open>\<^verbatim>\<open>trace.NewAggregate(errs...)\<close>: nil when there is no error to report.\<close>

definition NewAggregate :: "error list \<Rightarrow> error option" where
  "NewAggregate errs = (if errs = [] then None else Some (Aggregate errs))"

text \<open>
  A panic is not an error value that a caller can collect: it unwinds every loop and
  every caller in this file.  The functions below hand it on as soon as they meet it.
\<close>

fun isPanic :: "error \<Rightarrow> bool" where
  "isPanic (Err k m) = (k = RuntimePanic)"
| "isPanic (Aggregate es) = False"

text \<open>\<^verbatim>\<open>err.Error()\<close>: the message; an aggregate joins its members' messages.\<close>

fun joinMessages :: "string list \<Rightarrow> string" where
  "joinMessages [] = []"
| "joinMessages [m] = m"
| "joinMessages (m # ms) = m @ '', '' @ joinMessages ms"

fun errorMessage :: "error \<Rightarrow> string" where
  "errorMessage (Err k m) = m"
| "errorMessage (Aggregate es) = joinMessages (map errorMessage es)"

text \<open>\<^verbatim>\<open>strings.Contains(s, sub)\<close>.\<close>

fun hasPrefix :: "string \<Rightarrow> string \<Rightarrow> bool" where
  "hasPrefix s [] = True"
| "hasPrefix [] (c # sub) = False"
| "hasPrefix (d # s) (c # sub) = (d = c \<and> hasPrefix s sub)"

fun Contains :: "string \<Rightarrow> string \<Rightarrow> bool" where
  "Contains [] sub = (sub = [])"
| "Contains (d # s) sub = (hasPrefix (d # s) sub \<or> Contains s sub)"

subsection \<open>Resources (package services)\<close>

datatype CertAuthType = HostCA | UserCA

record CertAuthID =
  Type :: CertAuthType
  DomainName :: string

record RoleMapping =
  Remote :: string
  Local :: "string list"

type_synonym RoleMap = "RoleMapping list"

type_synonym bytes = string

record TLSKeyPair =
  Cert :: bytes

text \<open>
  A certificate authority: its type, its resource name (the domain name of its id),
  the cluster name it declares, its roles and role map, its TLS key pairs.
\<close>

record CertAuthority =
  caType :: CertAuthType
  caName :: string
  caClusterName :: string
  caRoles :: "string list"
  caRoleMap :: RoleMap
  caTLSKeyPairs :: "TLSKeyPair list"

definition GetID :: "CertAuthority \<Rightarrow> CertAuthID" where
  "GetID ca = \<lparr>Type = caType ca, DomainName = caName ca\<rparr>"

record TrustedCluster =
  tcName :: string
  tcEnabled :: bool
  tcToken :: string
  tcProxyAddress :: string
  tcReverseTunnelAddress :: string
  tcRoles :: "string list"
  tcRoleMap :: RoleMap

record ReverseTunnel =
  rtClusterName :: string
  rtDialAddrs :: "string list"

definition NewReverseTunnel :: "string \<Rightarrow> string list \<Rightarrow> ReverseTunnel" where
  "NewReverseTunnel clusterName dialAddrs =
     \<lparr>rtClusterName = clusterName, rtDialAddrs = dialAddrs\<rparr>"

text \<open>The roles a token carries (\<^verbatim>\<open>teleport.Roles\<close>), with the two the file names.\<close>

datatype Role = RoleTrustedCluster | LegacyClusterTokenType | RoleOther string

definition Include :: "Role list \<Rightarrow> Role \<Rightarrow> bool" where
  "Include roles r = (r \<in> set roles)"

datatype AuditEvent = TrustedClusterCreate | TrustedClusterDelete

subsection \<open>The wire envelope of the validation request\<close>

record ValidateTrustedClusterRequest =
  reqToken :: string
  reqCAs :: "CertAuthority list"

record ValidateTrustedClusterRequestRaw =
  rawReqToken :: string
  rawReqCAs :: "bytes list"

record ValidateTrustedClusterResponse =
  respCAs :: "CertAuthority list"

record ValidateTrustedClusterResponseRaw =
  rawRespCAs :: "bytes list"

text \<open>The marshaller of certificate authorities that the surrounding system supplies.\<close>

record CertAuthorityMarshaler =
  MarshalCertAuthority :: "CertAuthority \<Rightarrow> error + bytes"
  UnmarshalCertAuthority :: "bytes \<Rightarrow> error + CertAuthority"

text \<open>The loop of both \<^verbatim>\<open>ToRaw\<close> methods: marshal each authority, stop at the first error.\<close>

fun marshalLoop ::
  "CertAuthorityMarshaler \<Rightarrow> CertAuthority list \<Rightarrow> bytes list \<Rightarrow> error + bytes list" where
  "marshalLoop m [] cas = Inr cas"
| "marshalLoop m (certAuthority # rest) cas =
     (case MarshalCertAuthority m certAuthority of
        Inl err \<Rightarrow> Inl err
      | Inr data \<Rightarrow> marshalLoop m rest (cas @ [data]))"

text \<open>The loop of both \<^verbatim>\<open>ToNative\<close> methods.\<close>

fun unmarshalLoop ::
  "CertAuthorityMarshaler \<Rightarrow> bytes list \<Rightarrow> CertAuthority list \<Rightarrow> error + CertAuthority list" where
  "unmarshalLoop m [] cas = Inr cas"
| "unmarshalLoop m (rawCertAuthority # rest) cas =
     (case UnmarshalCertAuthority m rawCertAuthority of
        Inl err \<Rightarrow> Inl err
      | Inr certAuthority \<Rightarrow> unmarshalLoop m rest (cas @ [certAuthority]))"

definition Request_ToRaw ::
  "CertAuthorityMarshaler \<Rightarrow> ValidateTrustedClusterRequest
     \<Rightarrow> error + ValidateTrustedClusterRequestRaw" where
  "Request_ToRaw m v =
     (case marshalLoop m (reqCAs v) [] of
        Inl err \<Rightarrow> Inl err
      | Inr cas \<Rightarrow> Inr \<lparr>rawReqToken = reqToken v, rawReqCAs = cas\<rparr>)"

definition RequestRaw_ToNative ::
  "CertAuthorityMarshaler \<Rightarrow> ValidateTrustedClusterRequestRaw
     \<Rightarrow> error + ValidateTrustedClusterRequest" where
  "RequestRaw_ToNative m v =
     (case unmarshalLoop m (rawReqCAs v) [] of
        Inl err \<Rightarrow> Inl err
      | Inr cas \<Rightarrow> Inr \<lparr>reqToken = rawReqToken v, reqCAs = cas\<rparr>)"

definition Response_ToRaw ::
  "CertAuthorityMarshaler \<Rightarrow> ValidateTrustedClusterResponse
     \<Rightarrow> error + ValidateTrustedClusterResponseRaw" where
  "Response_ToRaw m v =
     (case marshalLoop m (respCAs v) [] of
        Inl err \<Rightarrow> Inl err
      | Inr cas \<Rightarrow> Inr \<lparr>rawRespCAs = cas\<rparr>)"

definition ResponseRaw_ToNative ::
  "CertAuthorityMarshaler \<Rightarrow> ValidateTrustedClusterResponseRaw
     \<Rightarrow> error + ValidateTrustedClusterResponse" where
  "ResponseRaw_ToNative m v =
     (case unmarshalLoop m (rawRespCAs v) [] of
        Inl err \<Rightarrow> Inl err
      | Inr cas \<Rightarrow> Inr \<lparr>respCAs = cas\<rparr>)"

subsection \<open>The services the auth server consumes\<close>

text \<open>
  The stores, the token validator, the audit log and the HTTPS client are collaborators
  of this file: each is a parameter, over any backend state \<open>'s\<close>.  A read returns a
  value; a write returns its error (if any) and the state it leaves behind.
  \<open>GetTrustedClusters\<close> is the auth server's own (possibly cached) listing,
  \<open>AuthServices_GetTrustedClusters\<close> the backend's.  \<open>NewClient\<close> is the
  construction of the HTTPS client for a proxy address (with the transport of the
  insecure development mode when that is on); \<open>PostJSON\<close> is the round trip of
  \<^verbatim>\<open>sendValidateRequestToProxy\<close>: posting the raw request to
  \<^verbatim>\<open>webapi/trustedclusters/validate\<close>, converting the response and decoding its
  JSON body.
\<close>

record 's AuthServices =
  GetDomainName :: "'s \<Rightarrow> error + string"
  GetClusterName :: "'s \<Rightarrow> error + string"
  Presence_GetTrustedCluster :: "string \<Rightarrow> 's \<Rightarrow> error + TrustedCluster"
  GetTrustedClusters :: "'s \<Rightarrow> error + TrustedCluster list"
  AuthServices_GetTrustedClusters :: "'s \<Rightarrow> error + TrustedCluster list"
  Presence_UpsertTrustedCluster :: "TrustedCluster \<Rightarrow> 's \<Rightarrow> (error + TrustedCluster) \<times> 's"
  Presence_DeleteTrustedCluster :: "string \<Rightarrow> 's \<Rightarrow> error option \<times> 's"
  CanChangeStateTo :: "TrustedCluster \<Rightarrow> TrustedCluster \<Rightarrow> error option"
  GetRole :: "string \<Rightarrow> 's \<Rightarrow> error option"
  ContainsExpansion :: "string \<Rightarrow> bool"
  GetCertAuthority :: "CertAuthID \<Rightarrow> bool \<Rightarrow> 's \<Rightarrow> error + CertAuthority"
  GetCertAuthorities :: "CertAuthType \<Rightarrow> bool \<Rightarrow> 's \<Rightarrow> error + CertAuthority list"
  CreateCertAuthority :: "CertAuthority \<Rightarrow> 's \<Rightarrow> error option \<times> 's"
  ActivateCertAuthority :: "CertAuthID \<Rightarrow> 's \<Rightarrow> error option \<times> 's"
  DeactivateCertAuthority :: "CertAuthID \<Rightarrow> 's \<Rightarrow> error option \<times> 's"
  DeleteCertAuthority :: "CertAuthID \<Rightarrow> 's \<Rightarrow> error option \<times> 's"
  UpsertReverseTunnel :: "ReverseTunnel \<Rightarrow> 's \<Rightarrow> error option \<times> 's"
  DeleteReverseTunnel :: "string \<Rightarrow> 's \<Rightarrow> error option \<times> 's"
  ValidateToken :: "string \<Rightarrow> 's \<Rightarrow> error + Role list"
  EmitAuditEvent :: "AuditEvent \<Rightarrow> 's \<Rightarrow> error option \<times> 's"
  NewClient :: "string \<Rightarrow> error option"
  PostJSON :: "string \<Rightarrow> ValidateTrustedClusterRequestRaw \<Rightarrow> 's
                 \<Rightarrow> error + ValidateTrustedClusterResponseRaw"
  Marshaler :: CertAuthorityMarshaler
  ParseCertificatePEM :: "bytes \<Rightarrow> error + string"
  ClusterNameOfSubject :: "string \<Rightarrow> error + string"

subsection \<open>Helpers on the certificate authorities of one trusted cluster\<close>

definition activateCertAuthority ::
  "'s AuthServices \<Rightarrow> TrustedCluster \<Rightarrow> 's \<Rightarrow> error option \<times> 's" where
  "activateCertAuthority a t s =
     (case ActivateCertAuthority a \<lparr>Type = UserCA, DomainName = tcName t\<rparr> s of
        (Some err, s1) \<Rightarrow> (Some err, s1)
      | (None, s1) \<Rightarrow>
          (case ActivateCertAuthority a \<lparr>Type = HostCA, DomainName = tcName t\<rparr> s1 of
             (Some err, s2) \<Rightarrow> (Some err, s2)
           | (None, s2) \<Rightarrow> (None, s2)))"

definition getCertAuthorities ::
  "'s AuthServices \<Rightarrow> TrustedCluster \<Rightarrow> 's \<Rightarrow> error + CertAuthority list" where
  "getCertAuthorities a t s =
     (case GetCertAuthority a \<lparr>Type = UserCA, DomainName = tcName t\<rparr> False s of
        Inl err \<Rightarrow> Inl err
      | Inr userCA \<Rightarrow>
          (case GetCertAuthority a \<lparr>Type = HostCA, DomainName = tcName t\<rparr> False s of
             Inl err \<Rightarrow> Inl err
           | Inr hostCA \<Rightarrow> Inr [userCA, hostCA]))"

definition deactivateCertAuthority ::
  "'s AuthServices \<Rightarrow> TrustedCluster \<Rightarrow> 's \<Rightarrow> error option \<times> 's" where
  "deactivateCertAuthority a t s =
     (case DeactivateCertAuthority a \<lparr>Type = UserCA, DomainName = tcName t\<rparr> s of
        (Some err, s1) \<Rightarrow> (Some err, s1)
      | (None, s1) \<Rightarrow> DeactivateCertAuthority a \<lparr>Type = HostCA, DomainName = tcName t\<rparr> s1)"

definition createReverseTunnel ::
  "'s AuthServices \<Rightarrow> TrustedCluster \<Rightarrow> 's \<Rightarrow> error option \<times> 's" where
  "createReverseTunnel a t s =
     UpsertReverseTunnel a (NewReverseTunnel (tcName t) [tcReverseTunnelAddress t]) s"

subsection \<open>checkLocalRoles\<close>

text \<open>The not-found message names the role; the mapping it prints is left out here.\<close>

definition roleNotDefined :: "string \<Rightarrow> error" where
  "roleNotDefined localRole =
     Err NotFound (''a role '' @ localRole @ '' referenced in a mapping is not defined'')"

fun checkLocalRolesOf :: "'s AuthServices \<Rightarrow> string list \<Rightarrow> 's \<Rightarrow> error option" where
  "checkLocalRolesOf a [] s = None"
| "checkLocalRolesOf a (localRole # rest) s =
     (if ContainsExpansion a localRole then checkLocalRolesOf a rest s
      else (case GetRole a localRole s of
              Some err \<Rightarrow>
                (if IsNotFound (Some err) then Some (roleNotDefined localRole) else Some err)
            | None \<Rightarrow> checkLocalRolesOf a rest s))"

fun checkLocalRoles :: "'s AuthServices \<Rightarrow> RoleMap \<Rightarrow> 's \<Rightarrow> error option" where
  "checkLocalRoles a [] s = None"
| "checkLocalRoles a (mapping # rest) s =
     (case checkLocalRolesOf a (Local mapping) s of
        Some err \<Rightarrow> Some err
      | None \<Rightarrow> checkLocalRoles a rest s)"

subsection \<open>establishTrust\<close>

definition sendValidateRequestToProxy ::
  "'s AuthServices \<Rightarrow> string \<Rightarrow> ValidateTrustedClusterRequest \<Rightarrow> 's
     \<Rightarrow> error + ValidateTrustedClusterResponse" where
  "sendValidateRequestToProxy a host validateRequest s =
     (case NewClient a host of
        Some err \<Rightarrow> Inl err
      | None \<Rightarrow>
     (case Request_ToRaw (Marshaler a) validateRequest of
        Inl err \<Rightarrow> Inl err
      | Inr validateRequestRaw \<Rightarrow>
          (case PostJSON a host validateRequestRaw s of
             Inl err \<Rightarrow> Inl err
           | Inr validateResponseRaw \<Rightarrow>
               ResponseRaw_ToNative (Marshaler a) validateResponseRaw)))"

text \<open>The inner loop over the TLS key pairs of one returned authority.\<close>

fun checkKeyPairs :: "'s AuthServices \<Rightarrow> string \<Rightarrow> TLSKeyPair list \<Rightarrow> error option" where
  "checkKeyPairs a domainName [] = None"
| "checkKeyPairs a domainName (keyPair # rest) =
     (case ParseCertificatePEM a (Cert keyPair) of
        Inl err \<Rightarrow> Some err
      | Inr subject \<Rightarrow>
          (case ClusterNameOfSubject a subject of
             Inl err \<Rightarrow> Some err
           | Inr remoteClusterName \<Rightarrow>
               (if remoteClusterName = domainName
                then Some (Err BadParameter
                       ''remote cluster name can not be the same as local cluster name'')
                else checkKeyPairs a domainName rest)))"

fun checkRemoteCAs :: "'s AuthServices \<Rightarrow> string \<Rightarrow> CertAuthority list \<Rightarrow> error option" where
  "checkRemoteCAs a domainName [] = None"
| "checkRemoteCAs a domainName (ca # rest) =
     (case checkKeyPairs a domainName (caTLSKeyPairs ca) of
        Some err \<Rightarrow> Some err
      | None \<Rightarrow> checkRemoteCAs a domainName rest)"

definition establishTrust ::
  "'s AuthServices \<Rightarrow> TrustedCluster \<Rightarrow> 's \<Rightarrow> error + CertAuthority list" where
  "establishTrust a trustedCluster s =
     (case GetDomainName a s of
        Inl err \<Rightarrow> Inl err
      | Inr domainName \<Rightarrow>
     (case GetCertAuthorities a HostCA False s of
        Inl err \<Rightarrow> Inl err
      | Inr allLocalCAs \<Rightarrow>
     (let localCertAuthorities = filter (\<lambda>lca. caClusterName lca = domainName) allLocalCAs;
          validateRequest = \<lparr>reqToken = tcToken trustedCluster, reqCAs = localCertAuthorities\<rparr>
      in case sendValidateRequestToProxy a (tcProxyAddress trustedCluster) validateRequest s of
           Inl err \<Rightarrow>
             (if Contains (errorMessage err) ''x509''
              then Inl (Err AccessDenied
                     ''the trusted cluster uses misconfigured HTTP/TLS certificate.'')
              else Inl err)
         | Inr validateResponse \<Rightarrow>
             (case checkRemoteCAs a domainName (respCAs validateResponse) of
                Some err \<Rightarrow> Inl err
              | None \<Rightarrow> Inr (respCAs validateResponse)))))"

subsection \<open>addCertAuthorities\<close>

text \<open>
  Modelled from the spec: \<^verbatim>\<open>CertAuthority.AddRole\<close> is not part of this file; the
  descriptor's roles are copied onto the authority, one \<open>AddRole\<close> per role.
\<close>

definition AddRole :: "string \<Rightarrow> CertAuthority \<Rightarrow> CertAuthority" where
  "AddRole r ca = ca\<lparr>caRoles := caRoles ca @ [r]\<rparr>"

text \<open>
  What the loop body does to one remote authority before it is created: named after
  the trusted cluster, roles wiped, and for a user CA the descriptor's roles and role map.
\<close>

definition importedCA :: "TrustedCluster \<Rightarrow> CertAuthority \<Rightarrow> CertAuthority" where
  "importedCA trustedCluster remoteCertAuthority =
     (let ca1 = remoteCertAuthority\<lparr>caName := tcName trustedCluster\<rparr>;
          ca2 = ca1\<lparr>caRoles := []\<rparr>
      in if caType ca2 = UserCA
         then (foldl (\<lambda>ca r. AddRole r ca) ca2 (tcRoles trustedCluster))
                \<lparr>caRoleMap := tcRoleMap trustedCluster\<rparr>
         else ca2)"

fun addCertAuthorities ::
  "'s AuthServices \<Rightarrow> TrustedCluster \<Rightarrow> CertAuthority list \<Rightarrow> 's \<Rightarrow> error option \<times> 's" where
  "addCertAuthorities a trustedCluster [] s = (None, s)"
| "addCertAuthorities a trustedCluster (remoteCertAuthority # rest) s =
     (case CreateCertAuthority a (importedCA trustedCluster remoteCertAuthority) s of
        (Some err, s1) \<Rightarrow> (Some err, s1)
      | (None, s1) \<Rightarrow> addCertAuthorities a trustedCluster rest s1)"

subsection \<open>UpsertTrustedCluster\<close>

definition legacyMessage :: string where
  "legacyMessage =
     ''enable only supported for Trusted Clusters created with Teleport 2.3 and above''"

text \<open>\<^verbatim>\<open>remoteCAs[0].GetClusterName()\<close>: indexing an empty slice panics.\<close>

definition firstClusterName :: "CertAuthority list \<Rightarrow> error + string" where
  "firstClusterName remoteCAs =
     (case remoteCAs of
        [] \<Rightarrow> Inl (Err RuntimePanic ''index out of range'')
      | ca # rest \<Rightarrow> Inr (caClusterName ca))"

text \<open>The tail of every branch: persist the descriptor, emit the audit event.\<close>

definition persistAndAudit ::
  "'s AuthServices \<Rightarrow> TrustedCluster \<Rightarrow> 's \<Rightarrow> (error + TrustedCluster) \<times> 's" where
  "persistAndAudit a trustedCluster s =
     (case Presence_UpsertTrustedCluster a trustedCluster s of
        (Inl err, s1) \<Rightarrow> (Inl err, s1)
      | (Inr tc, s1) \<Rightarrow>
          (case EmitAuditEvent a TrustedClusterCreate s1 of
             (err, s2) \<Rightarrow> (Inr tc, s2)))"

text \<open>The two branches of the switch for a descriptor that exists.\<close>

definition enableExisting ::
  "'s AuthServices \<Rightarrow> TrustedCluster \<Rightarrow> 's \<Rightarrow> (error + TrustedCluster) \<times> 's" where
  "enableExisting a trustedCluster s =
     (case activateCertAuthority a trustedCluster s of
        (Some err, s1) \<Rightarrow>
          (if IsNotFound (Some err) then (Inl (Err BadParameter legacyMessage), s1)
           else (Inl err, s1))
      | (None, s1) \<Rightarrow>
          (case createReverseTunnel a trustedCluster s1 of
             (Some err, s2) \<Rightarrow> (Inl err, s2)
           | (None, s2) \<Rightarrow> persistAndAudit a trustedCluster s2))"

definition disableExisting ::
  "'s AuthServices \<Rightarrow> TrustedCluster \<Rightarrow> 's \<Rightarrow> (error + TrustedCluster) \<times> 's" where
  "disableExisting a trustedCluster s =
     (case deactivateCertAuthority a trustedCluster s of
        (Some err, s1) \<Rightarrow>
          (if IsNotFound (Some err) then (Inl (Err BadParameter legacyMessage), s1)
           else (Inl err, s1))
      | (None, s1) \<Rightarrow>
          (case DeleteReverseTunnel a (tcName trustedCluster) s1 of
             (Some err, s2) \<Rightarrow> (Inl err, s2)
           | (None, s2) \<Rightarrow> persistAndAudit a trustedCluster s2))"

text \<open>The two branches for a descriptor that does not exist; they differ in the last step.\<close>

definition createRelationship ::
  "'s AuthServices \<Rightarrow> bool \<Rightarrow> TrustedCluster \<Rightarrow> 's \<Rightarrow> (error + TrustedCluster) \<times> 's" where
  "createRelationship a enable trustedCluster s =
     (case checkLocalRoles a (tcRoleMap trustedCluster) s of
        Some err \<Rightarrow> (Inl err, s)
      | None \<Rightarrow>
     (case establishTrust a trustedCluster s of
        Inl err \<Rightarrow> (Inl err, s)
      | Inr remoteCAs \<Rightarrow>
     (case firstClusterName remoteCAs of
        Inl err \<Rightarrow> (Inl err, s)
      | Inr name \<Rightarrow>
     (let trustedCluster = trustedCluster\<lparr>tcName := name\<rparr>
      in case addCertAuthorities a trustedCluster remoteCAs s of
           (Some err, s1) \<Rightarrow> (Inl err, s1)
         | (None, s1) \<Rightarrow>
             (if enable then
                (case createReverseTunnel a trustedCluster s1 of
                   (Some err, s2) \<Rightarrow> (Inl err, s2)
                 | (None, s2) \<Rightarrow> persistAndAudit a trustedCluster s2)
              else
                (case deactivateCertAuthority a trustedCluster s1 of
                   (Some err, s2) \<Rightarrow> (Inl err, s2)
                 | (None, s2) \<Rightarrow> persistAndAudit a trustedCluster s2))))))"

text \<open>The lookup at the head of the function: \<open>Some\<close> is \<^verbatim>\<open>exists == true\<close>.\<close>

definition lookupExisting :: "'s AuthServices \<Rightarrow> TrustedCluster \<Rightarrow> 's \<Rightarrow> TrustedCluster option" where
  "lookupExisting a trustedCluster s =
     (if tcName trustedCluster \<noteq> []
      then (case Presence_GetTrustedCluster a (tcName trustedCluster) s of
              Inr existing \<Rightarrow> Some existing
            | Inl err \<Rightarrow> None)
      else None)"

definition UpsertTrustedCluster ::
  "'s AuthServices \<Rightarrow> TrustedCluster \<Rightarrow> 's \<Rightarrow> (error + TrustedCluster) \<times> 's" where
  "UpsertTrustedCluster a trustedCluster s =
     (let existing = lookupExisting a trustedCluster s;
          exists = (existing \<noteq> None);
          enable = tcEnabled trustedCluster
      in
      case (case existing of
              Some existingCluster \<Rightarrow> CanChangeStateTo a existingCluster trustedCluster
            | None \<Rightarrow> None) of
        Some err \<Rightarrow> (Inl err, s)
      | None \<Rightarrow>
          if exists \<and> enable then enableExisting a trustedCluster s
          else if exists \<and> \<not> enable then disableExisting a trustedCluster s
          else if \<not> exists \<and> enable then createRelationship a True trustedCluster s
          else createRelationship a False trustedCluster s)"

subsection \<open>EnsureTrustedClusters\<close>

text \<open>
  \<open>ensureEnabled\<close> returns \<open>renamed\<close>, the error, the descriptor as the call leaves
  it (\<^verbatim>\<open>tc.SetName\<close> writes through the caller's reference) and the state.
\<close>

definition ensureEnabled ::
  "'s AuthServices \<Rightarrow> TrustedCluster \<Rightarrow> 's \<Rightarrow> bool \<times> error option \<times> TrustedCluster \<times> 's" where
  "ensureEnabled a tc s =
     (case activateCertAuthority a tc s of (err, s1) \<Rightarrow>
      if err \<noteq> None \<and> \<not> IsNotFound err then (False, err, tc, s1)
      else if IsNotFound err then
        (case getCertAuthorities a tc s1 of
           Inl err2 \<Rightarrow>
             (if \<not> IsNotFound (Some err2) then (False, Some err2, tc, s1)
              else
                (case establishTrust a tc s1 of
                   Inl err3 \<Rightarrow> (False, Some err3, tc, s1)
                 | Inr cas \<Rightarrow>
                (case firstClusterName cas of
                   Inl err3 \<Rightarrow> (False, Some err3, tc, s1)
                 | Inr name \<Rightarrow>
                (let renamed = (name \<noteq> tcName tc);
                     tc = (if name \<noteq> tcName tc then tc\<lparr>tcName := name\<rparr> else tc)
                 in case addCertAuthorities a tc cas s1 of
                      (Some err4, s2) \<Rightarrow> (renamed, Some err4, tc, s2)
                    | (None, s2) \<Rightarrow>
                        (case createReverseTunnel a tc s2 of
                           (err5, s3) \<Rightarrow> (renamed, err5, tc, s3))))))
         | Inr cas \<Rightarrow>
             (case createReverseTunnel a tc s1 of (err5, s3) \<Rightarrow> (False, err5, tc, s3)))
      else
        (case createReverseTunnel a tc s1 of (err5, s3) \<Rightarrow> (False, err5, tc, s3)))"

definition ensureDisabled ::
  "'s AuthServices \<Rightarrow> TrustedCluster \<Rightarrow> 's \<Rightarrow> error option \<times> 's" where
  "ensureDisabled a tc s =
     (case deactivateCertAuthority a tc s of (err, s1) \<Rightarrow>
      if err \<noteq> None \<and> \<not> IsNotFound err then (err, s1)
      else
        (case DeleteReverseTunnel a (tcName tc) s1 of (err2, s2) \<Rightarrow>
         if err2 \<noteq> None \<and> \<not> IsNotFound err2 then (err2, s2)
         else (None, s2)))"

text \<open>
  One iteration of the loop of \<open>EnsureTrustedClusters\<close>: the errors it appends to
  \<open>errs\<close>, the descriptor as the iteration leaves it, and the state.
\<close>

definition ensureOne ::
  "'s AuthServices \<Rightarrow> TrustedCluster \<Rightarrow> 's \<Rightarrow> error list \<times> TrustedCluster \<times> 's" where
  "ensureOne a tc s =
     (let name = tcName tc
      in case (if tcEnabled tc then ensureEnabled a tc s
               else (case ensureDisabled a tc s of (err, s1) \<Rightarrow> (False, err, tc, s1))) of
           (renamed, err, tc1, s1) \<Rightarrow>
             (let errs = (case err of Some e \<Rightarrow> [e] | None \<Rightarrow> [])
              in if \<not> renamed then (errs, tc1, s1)
                 else
                   (case Presence_UpsertTrustedCluster a tc1 s1 of
                      (Inl err2, s2) \<Rightarrow> (errs @ [err2], tc1, s2)
                    | (Inr stored, s2) \<Rightarrow>
                        (case Presence_DeleteTrustedCluster a name s2 of
                           (Some err3, s3) \<Rightarrow> (errs @ [err3], tc1, s3)
                         | (None, s3) \<Rightarrow> (errs, tc1, s3)))))"

fun ensureLoop ::
  "'s AuthServices \<Rightarrow> TrustedCluster list \<Rightarrow> error list \<Rightarrow> 's
     \<Rightarrow> error list \<times> TrustedCluster list \<times> 's" where
  "ensureLoop a [] errs s = (errs, [], s)"
| "ensureLoop a (tc # rest) errs s =
     (case ensureOne a tc s of
        (errs1, tc1, s1) \<Rightarrow>
          if list_ex isPanic errs1 then (errs @ errs1, tc1 # rest, s1)
          else
            (case ensureLoop a rest (errs @ errs1) s1 of
               (errs2, rest1, s2) \<Rightarrow> (errs2, tc1 # rest1, s2)))"

text \<open>
  The result is the aggregate error, the caller's descriptors as the pass leaves them
  (a rename is visible to the caller, who holds the same references; descriptors that
  the function loaded itself are not the caller's), and the state.  A pass that a panic
  has ended returns the panic instead of an aggregate.
\<close>

definition EnsureTrustedClusters ::
  "'s AuthServices \<Rightarrow> TrustedCluster list \<Rightarrow> 's \<Rightarrow> error option \<times> TrustedCluster list \<times> 's" where
  "EnsureTrustedClusters a tcs s =
     (case (if tcs = [] then GetTrustedClusters a s else Inr tcs) of
        Inl err \<Rightarrow> (Some err, tcs, s)
      | Inr loaded \<Rightarrow>
          (case ensureLoop a loaded [] s of
             (errs, tcs1, s1) \<Rightarrow>
               (let visible = (if tcs = [] then tcs else tcs1)
                in case find isPanic errs of
                     Some p \<Rightarrow> (Some p, visible, s1)
                   | None \<Rightarrow> (NewAggregate errs, visible, s1))))"

subsection \<open>DeleteTrustedCluster\<close>

definition selfDeleteMessage :: "string \<Rightarrow> string" where
  "selfDeleteMessage name =
     ''trusted cluster '' @ name
       @ '' is the name of this root cluster and cannot be removed.''"

definition DeleteTrustedCluster :: "'s AuthServices \<Rightarrow> string \<Rightarrow> 's \<Rightarrow> error option \<times> 's" where
  "DeleteTrustedCluster a name s =
     (case GetClusterName a s of
        Inl err \<Rightarrow> (Some err, s)
      | Inr cn \<Rightarrow>
      if cn = name then (Some (Err BadParameter (selfDeleteMessage name)), s)
      else
        (case DeleteCertAuthority a \<lparr>Type = HostCA, DomainName = name\<rparr> s of (err1, s1) \<Rightarrow>
         if err1 \<noteq> None \<and> \<not> IsNotFound err1 then (err1, s1)
         else
        (case DeleteCertAuthority a \<lparr>Type = UserCA, DomainName = name\<rparr> s1 of (err2, s2) \<Rightarrow>
         if err2 \<noteq> None \<and> \<not> IsNotFound err2 then (err2, s2)
         else
        (case DeleteReverseTunnel a name s2 of (err3, s3) \<Rightarrow>
         if err3 \<noteq> None \<and> \<not> IsNotFound err3 then (err3, s3)
         else
        (case Presence_DeleteTrustedCluster a name s3 of
           (Some err4, s4) \<Rightarrow> (Some err4, s4)
         | (None, s4) \<Rightarrow>
             (case EmitAuditEvent a TrustedClusterDelete s4 of
                (err5, s5) \<Rightarrow> (None, s5)))))))"

subsection \<open>validateTrustedClusterToken\<close>

definition validateTrustedClusterToken :: "'s AuthServices \<Rightarrow> string \<Rightarrow> 's \<Rightarrow> error option" where
  "validateTrustedClusterToken a token s =
     (case ValidateToken a token s of
        Inl err \<Rightarrow>
          Some (Err AccessDenied ''the remote server denied access: invalid cluster token'')
      | Inr roles \<Rightarrow>
          (if \<not> Include roles RoleTrustedCluster \<and> \<not> Include roles LegacyClusterTokenType
           then Some (Err AccessDenied ''role does not match'')
           else None))"

subsection \<open>The orphan collector: trustController.cycle\<close>

text \<open>Instants and durations are whole nanoseconds; \<^verbatim>\<open>Time.Sub\<close> saturates.\<close>

definition maxDuration :: int where
  "maxDuration = 2 ^ 63 - 1"

definition minDuration :: int where
  "minDuration = - (2 ^ 63)"

definition After :: "int \<Rightarrow> int \<Rightarrow> bool" where
  "After t u = (t > u)"

definition Sub :: "int \<Rightarrow> int \<Rightarrow> int" where
  "Sub t u = (let d = t - u
              in if d > maxDuration then maxDuration
                 else if d < minDuration then minDuration else d)"

record suspectedOrphanCA =
  ca :: CertAuthority
  since :: int
  seen :: bool

record trustController =
  orphanAfter :: int
  suspectedOrphanCAs :: "suspectedOrphanCA list"

text \<open>
  \<^verbatim>\<open>for _, sus := range c.suspectedOrphanCAs { sus.seen = false }\<close>:
  \<open>suspectedOrphanCAs\<close> is a slice of struct values, so the loop variable \<open>sus\<close> is
  a copy of the element and the assignment writes the copy.  The function returns the
  slice as the loop leaves it.
\<close>

fun resetSeen :: "suspectedOrphanCA list \<Rightarrow> suspectedOrphanCA list \<Rightarrow> suspectedOrphanCA list" where
  "resetSeen slice [] = slice"
| "resetSeen slice (sus # rest) = (let sus = sus\<lparr>seen := False\<rparr> in resetSeen slice rest)"

text \<open>
  The inner loop over the tracked suspects: true when the authority equals a tracked
  one (\<^verbatim>\<open>ca.Equals(sus.ca)\<close>, deep equality).  Here too \<^verbatim>\<open>sus.seen = true\<close>
  writes the loop variable.
\<close>

fun alreadyTracked :: "suspectedOrphanCA list \<Rightarrow> CertAuthority \<Rightarrow> bool" where
  "alreadyTracked [] c = False"
| "alreadyTracked (sus # rest) c =
     (if c = ca sus then (let sus = sus\<lparr>seen := True\<rparr> in True)
      else alreadyTracked rest c)"

text \<open>The loop labelled \<^verbatim>\<open>Processing\<close>, over the authorities of one type.\<close>

fun processCAs ::
  "string \<Rightarrow> TrustedCluster list \<Rightarrow> suspectedOrphanCA list \<Rightarrow> int \<Rightarrow> CertAuthority list
     \<Rightarrow> suspectedOrphanCA list \<Rightarrow> suspectedOrphanCA list" where
  "processCAs domainName tcs suspects t [] nextSuspects = nextSuspects"
| "processCAs domainName tcs suspects t (c # rest) nextSuspects =
     (if caClusterName c = domainName
      then processCAs domainName tcs suspects t rest nextSuspects
      else if list_ex (\<lambda>tc. tcName tc = caClusterName c) tcs
      then processCAs domainName tcs suspects t rest nextSuspects
      else if alreadyTracked suspects c
      then processCAs domainName tcs suspects t rest nextSuspects
      else processCAs domainName tcs suspects t rest
             (nextSuspects @ [\<lparr>ca = c, since = t, seen = True\<rparr>]))"

text \<open>The loop over the two authority types; a failed listing ends the cycle.\<close>

fun scanTypes ::
  "'s AuthServices \<Rightarrow> string \<Rightarrow> TrustedCluster list \<Rightarrow> suspectedOrphanCA list \<Rightarrow> int
     \<Rightarrow> CertAuthType list \<Rightarrow> suspectedOrphanCA list \<Rightarrow> 's \<Rightarrow> error + suspectedOrphanCA list" where
  "scanTypes a domainName tcs suspects t [] nextSuspects s = Inr nextSuspects"
| "scanTypes a domainName tcs suspects t (certType # rest) nextSuspects s =
     (case GetCertAuthorities a certType False s of
        Inl err \<Rightarrow> Inl err
      | Inr cas \<Rightarrow>
          scanTypes a domainName tcs suspects t rest
            (processCAs domainName tcs suspects t cas nextSuspects) s)"

text \<open>The last loop: drop the unseen, delete the overdue, keep the rest.\<close>

fun sweepSuspects ::
  "'s AuthServices \<Rightarrow> int \<Rightarrow> int \<Rightarrow> suspectedOrphanCA list \<Rightarrow> suspectedOrphanCA list \<Rightarrow> 's
     \<Rightarrow> suspectedOrphanCA list \<times> 's" where
  "sweepSuspects a after t [] nextSuspects s = (nextSuspects, s)"
| "sweepSuspects a after t (sus # rest) nextSuspects s =
     (if \<not> seen sus then sweepSuspects a after t rest nextSuspects s
      else if After t (since sus) \<and> Sub t (since sus) > after
      then (case DeleteCertAuthority a (GetID (ca sus)) s of
              (err, s1) \<Rightarrow> sweepSuspects a after t rest nextSuspects s1)
      else sweepSuspects a after t rest (nextSuspects @ [sus]) s)"

definition cycle ::
  "'s AuthServices \<Rightarrow> trustController \<Rightarrow> int \<Rightarrow> 's \<Rightarrow> error option \<times> trustController \<times> 's" where
  "cycle a c t s =
     (case GetDomainName a s of
        Inl err \<Rightarrow> (Some err, c, s)
      | Inr domainName \<Rightarrow>
     (case AuthServices_GetTrustedClusters a s of
        Inl err \<Rightarrow> (Some err, c, s)
      | Inr tcs \<Rightarrow>
     (case EnsureTrustedClusters a tcs s of (err, tcs, s1) \<Rightarrow>
      if (case err of Some e \<Rightarrow> isPanic e | None \<Rightarrow> False) then (err, c, s1)
      else
      let suspects = resetSeen (suspectedOrphanCAs c) (suspectedOrphanCAs c)
      in case scanTypes a domainName tcs suspects t [UserCA, HostCA] [] s1 of
           Inl err \<Rightarrow> (Some err, c\<lparr>suspectedOrphanCAs := suspects\<rparr>, s1)
         | Inr nextSuspects \<Rightarrow>
             (case sweepSuspects a (orphanAfter c) t suspects nextSuspects s1 of
                (nextSuspects, s2) \<Rightarrow>
                  (None, c\<lparr>suspectedOrphanCAs := nextSuspects\<rparr>, s2)))))"

subsection \<open>An in-memory backend\<close>

text \<open>
  Modelled from the spec: the stores behind the facades are not part of this file.  The
  backend holds the local domain name, the TrustedCluster descriptors, the certificate
  authorities keyed by \<open>(type, domain_name)\<close> with their \<open>active\<close> flag, the
  reverse tunnels keyed by cluster name, the local role names, the tokens with their
  capabilities, the audit log, and for each proxy address the token the responder
  accepts and the raw authorities it returns.
\<close>

record backend =
  bDomainName :: string
  bTrustedClusters :: "TrustedCluster list"
  bCertAuthorities :: "(CertAuthority \<times> bool) list"
  bReverseTunnels :: "ReverseTunnel list"
  bRoles :: "string list"
  bTokens :: "(string \<times> Role list) list"
  bAudit :: "AuditEvent list"
  bResponders :: "(string \<times> string \<times> bytes list) list"

definition notFound :: "string \<Rightarrow> error" where
  "notFound what = Err NotFound (what @ '' is not found'')"

definition hasCA :: "CertAuthID \<Rightarrow> (CertAuthority \<times> bool) list \<Rightarrow> bool" where
  "hasCA caid cas = list_ex (\<lambda>(c, act). GetID c = caid) cas"

definition hasCAInState :: "CertAuthID \<Rightarrow> bool \<Rightarrow> (CertAuthority \<times> bool) list \<Rightarrow> bool" where
  "hasCAInState caid st cas = list_ex (\<lambda>(c, act). GetID c = caid \<and> act = st) cas"

definition setCAState ::
  "CertAuthID \<Rightarrow> bool \<Rightarrow> (CertAuthority \<times> bool) list \<Rightarrow> (CertAuthority \<times> bool) list" where
  "setCAState caid st cas = map (\<lambda>(c, act). if GetID c = caid then (c, st) else (c, act)) cas"

definition memGetTrustedCluster :: "string \<Rightarrow> backend \<Rightarrow> error + TrustedCluster" where
  "memGetTrustedCluster name s =
     (case find (\<lambda>tc. tcName tc = name) (bTrustedClusters s) of
        None \<Rightarrow> Inl (notFound ''trusted cluster'')
      | Some tc \<Rightarrow> Inr tc)"

definition memUpsertTrustedCluster ::
  "TrustedCluster \<Rightarrow> backend \<Rightarrow> (error + TrustedCluster) \<times> backend" where
  "memUpsertTrustedCluster tc s =
     (Inr tc,
      s\<lparr>bTrustedClusters :=
          (if list_ex (\<lambda>x. tcName x = tcName tc) (bTrustedClusters s)
           then map (\<lambda>x. if tcName x = tcName tc then tc else x) (bTrustedClusters s)
           else bTrustedClusters s @ [tc])\<rparr>)"

definition memDeleteTrustedCluster :: "string \<Rightarrow> backend \<Rightarrow> error option \<times> backend" where
  "memDeleteTrustedCluster name s =
     (if list_ex (\<lambda>x. tcName x = name) (bTrustedClusters s)
      then (None, s\<lparr>bTrustedClusters := filter (\<lambda>x. tcName x \<noteq> name) (bTrustedClusters s)\<rparr>)
      else (Some (notFound ''trusted cluster''), s))"

text \<open>
  Modelled from the spec: the descriptor's own rule allows toggling \<open>enabled\<close> and
  forbids changing the identifying fields.
\<close>

definition memCanChangeStateTo :: "TrustedCluster \<Rightarrow> TrustedCluster \<Rightarrow> error option" where
  "memCanChangeStateTo existing t =
     (if tcToken existing = tcToken t \<and> tcProxyAddress existing = tcProxyAddress t
         \<and> tcReverseTunnelAddress existing = tcReverseTunnelAddress t
         \<and> tcRoles existing = tcRoles t \<and> tcRoleMap existing = tcRoleMap t
      then None
      else Some (Err InvalidTransition ''can not update an existing trusted cluster''))"

definition memGetRole :: "string \<Rightarrow> backend \<Rightarrow> error option" where
  "memGetRole name s = (if name \<in> set (bRoles s) then None else Some (notFound ''role''))"

definition memContainsExpansion :: "string \<Rightarrow> bool" where
  "memContainsExpansion r = (Contains r ''{{'' \<and> Contains r ''}}'')"

definition memGetCertAuthority :: "CertAuthID \<Rightarrow> bool \<Rightarrow> backend \<Rightarrow> error + CertAuthority" where
  "memGetCertAuthority caid loadKeys s =
     (case find (\<lambda>(c, act). GetID c = caid) (bCertAuthorities s) of
        None \<Rightarrow> Inl (notFound ''certificate authority'')
      | Some (c, act) \<Rightarrow> Inr c)"

definition memGetCertAuthorities ::
  "CertAuthType \<Rightarrow> bool \<Rightarrow> backend \<Rightarrow> error + CertAuthority list" where
  "memGetCertAuthorities certType loadKeys s =
     Inr (filter (\<lambda>c. caType c = certType) (map fst (bCertAuthorities s)))"

text \<open>Create-only: an authority whose id is taken is refused with already-exists.\<close>

definition memCreateCertAuthority :: "CertAuthority \<Rightarrow> backend \<Rightarrow> error option \<times> backend" where
  "memCreateCertAuthority c s =
     (if hasCA (GetID c) (bCertAuthorities s)
      then (Some (Err AlreadyExists ''certificate authority already exists''), s)
      else (None, s\<lparr>bCertAuthorities := bCertAuthorities s @ [(c, True)]\<rparr>))"

text \<open>
  Activation finds the authority among the inactive ones, deactivation among the
  active ones; each answers not-found otherwise.
\<close>

definition memActivateCertAuthority :: "CertAuthID \<Rightarrow> backend \<Rightarrow> error option \<times> backend" where
  "memActivateCertAuthority caid s =
     (if hasCAInState caid False (bCertAuthorities s)
      then (None, s\<lparr>bCertAuthorities := setCAState caid True (bCertAuthorities s)\<rparr>)
      else (Some (notFound ''certificate authority''), s))"

definition memDeactivateCertAuthority :: "CertAuthID \<Rightarrow> backend \<Rightarrow> error option \<times> backend" where
  "memDeactivateCertAuthority caid s =
     (if hasCAInState caid True (bCertAuthorities s)
      then (None, s\<lparr>bCertAuthorities := setCAState caid False (bCertAuthorities s)\<rparr>)
      else (Some (notFound ''certificate authority''), s))"

definition memDeleteCertAuthority :: "CertAuthID \<Rightarrow> backend \<Rightarrow> error option \<times> backend" where
  "memDeleteCertAuthority caid s =
     (if hasCA caid (bCertAuthorities s)
      then (None, s\<lparr>bCertAuthorities :=
                      filter (\<lambda>(c, act). GetID c \<noteq> caid) (bCertAuthorities s)\<rparr>)
      else (Some (notFound ''certificate authority''), s))"

definition memUpsertReverseTunnel :: "ReverseTunnel \<Rightarrow> backend \<Rightarrow> error option \<times> backend" where
  "memUpsertReverseTunnel rt s =
     (None,
      s\<lparr>bReverseTunnels :=
          (if list_ex (\<lambda>x. rtClusterName x = rtClusterName rt) (bReverseTunnels s)
           then map (\<lambda>x. if rtClusterName x = rtClusterName rt then rt else x)
                  (bReverseTunnels s)
           else bReverseTunnels s @ [rt])\<rparr>)"

definition memDeleteReverseTunnel :: "string \<Rightarrow> backend \<Rightarrow> error option \<times> backend" where
  "memDeleteReverseTunnel name s =
     (if list_ex (\<lambda>x. rtClusterName x = name) (bReverseTunnels s)
      then (None, s\<lparr>bReverseTunnels :=
                      filter (\<lambda>x. rtClusterName x \<noteq> name) (bReverseTunnels s)\<rparr>)
      else (Some (notFound ''reverse tunnel''), s))"

definition memValidateToken :: "string \<Rightarrow> backend \<Rightarrow> error + Role list" where
  "memValidateToken token s =
     (case map_of (bTokens s) token of
        None \<Rightarrow> Inl (notFound ''token'')
      | Some roles \<Rightarrow> Inr roles)"

definition memEmitAuditEvent :: "AuditEvent \<Rightarrow> backend \<Rightarrow> error option \<times> backend" where
  "memEmitAuditEvent ev s = (None, s\<lparr>bAudit := bAudit s @ [ev]\<rparr>)"

text \<open>The responder behind a proxy address answers 403 to a token that is not its own.\<close>

definition memPostJSON ::
  "string \<Rightarrow> ValidateTrustedClusterRequestRaw \<Rightarrow> backend
     \<Rightarrow> error + ValidateTrustedClusterResponseRaw" where
  "memPostJSON host raw s =
     (case map_of (bResponders s) host of
        None \<Rightarrow> Inl (Err ConnectionProblem ''connection refused'')
      | Some (token, cas) \<Rightarrow>
          (if rawReqToken raw = token then Inr \<lparr>rawRespCAs = cas\<rparr>
           else Inl (Err AccessDenied
                  ''the remote server denied access: invalid cluster token'')))"

text \<open>A marshaller given by a table of the authorities it knows and their bytes.\<close>

definition tableMarshaler :: "(bytes \<times> CertAuthority) list \<Rightarrow> CertAuthorityMarshaler" where
  "tableMarshaler codec =
     \<lparr>MarshalCertAuthority =
        (\<lambda>c. case find (\<lambda>(d, c'). c' = c) codec of
                None \<Rightarrow> Inl (Err BadParameter ''can not marshal'')
              | Some (d, c') \<Rightarrow> Inr d),
      UnmarshalCertAuthority =
        (\<lambda>d. case map_of codec d of
                None \<Rightarrow> Inl (Err BadParameter ''can not unmarshal'')
              | Some c \<Rightarrow> Inr c)\<rparr>"

text \<open>
  A certificate here is just the cluster name of its subject, so parsing it and
  reading the name never fail.
\<close>

definition memServices :: "(bytes \<times> CertAuthority) list \<Rightarrow> backend AuthServices" where
  "memServices codec =
     \<lparr>GetDomainName = (\<lambda>s. Inr (bDomainName s)),
      GetClusterName = (\<lambda>s. Inr (bDomainName s)),
      Presence_GetTrustedCluster = memGetTrustedCluster,
      GetTrustedClusters = (\<lambda>s. Inr (bTrustedClusters s)),
      AuthServices_GetTrustedClusters = (\<lambda>s. Inr (bTrustedClusters s)),
      Presence_UpsertTrustedCluster = memUpsertTrustedCluster,
      Presence_DeleteTrustedCluster = memDeleteTrustedCluster,
      CanChangeStateTo = memCanChangeStateTo,
      GetRole = memGetRole,
      ContainsExpansion = memContainsExpansion,
      GetCertAuthority = memGetCertAuthority,
      GetCertAuthorities = memGetCertAuthorities,
      CreateCertAuthority = memCreateCertAuthority,
      ActivateCertAuthority = memActivateCertAuthority,
      DeactivateCertAuthority = memDeactivateCertAuthority,
      DeleteCertAuthority = memDeleteCertAuthority,
      UpsertReverseTunnel = memUpsertReverseTunnel,
      DeleteReverseTunnel = memDeleteReverseTunnel,
      ValidateToken = memValidateToken,
      EmitAuditEvent = memEmitAuditEvent,
      NewClient = (\<lambda>host. None),
      PostJSON = memPostJSON,
      Marshaler = tableMarshaler codec,
      ParseCertificatePEM = (\<lambda>cert. Inr cert),
      ClusterNameOfSubject = (\<lambda>subject. Inr subject)\<rparr>"

subsection \<open>Scenarios\<close>

text \<open>
  A root cluster \<open>root\<close> and a leaf behind the proxy \<open>p:443\<close> that calls itself
  \<open>leaf-east\<close> and accepts the token \<open>tok\<close>.
\<close>

definition leafHostCA :: CertAuthority where
  "leafHostCA = \<lparr>caType = HostCA, caName = ''leaf-east'', caClusterName = ''leaf-east'',
     caRoles = [''remote-admin''], caRoleMap = [], caTLSKeyPairs = [\<lparr>Cert = ''leaf-east''\<rparr>]\<rparr>"

definition leafUserCA :: CertAuthority where
  "leafUserCA = \<lparr>caType = UserCA, caName = ''leaf-east'', caClusterName = ''leaf-east'',
     caRoles = [''remote-admin''], caRoleMap = [], caTLSKeyPairs = [\<lparr>Cert = ''leaf-east''\<rparr>]\<rparr>"

definition rootHostCA :: CertAuthority where
  "rootHostCA = \<lparr>caType = HostCA, caName = ''root'', caClusterName = ''root'',
     caRoles = [], caRoleMap = [], caTLSKeyPairs = [\<lparr>Cert = ''root''\<rparr>]\<rparr>"

definition demoCodec :: "(bytes \<times> CertAuthority) list" where
  "demoCodec = [(''H-leaf'', leafHostCA), (''U-leaf'', leafUserCA), (''H-root'', rootHostCA)]"

definition rootBackend :: backend where
  "rootBackend = \<lparr>bDomainName = ''root'', bTrustedClusters = [],
     bCertAuthorities = [(rootHostCA, True)], bReverseTunnels = [], bRoles = [''admin''],
     bTokens = [(''tok-node'', [RoleOther ''Node'']), (''tok-tc'', [RoleTrustedCluster])],
     bAudit = [],
     bResponders = [(''p:443'', ''tok'', [''H-leaf'', ''U-leaf''])]\<rparr>"

definition tempCluster :: TrustedCluster where
  "tempCluster = \<lparr>tcName = ''temp'', tcEnabled = True, tcToken = ''tok'',
     tcProxyAddress = ''p:443'', tcReverseTunnelAddress = ''p:3024'',
     tcRoles = [''admin''], tcRoleMap = [\<lparr>Remote = ''dev'', Local = [''admin'']\<rparr>]\<rparr>"

text \<open>A descriptor from before the authorities were kept per trusted cluster: none stored.\<close>

definition legacyCluster :: TrustedCluster where
  "legacyCluster = \<lparr>tcName = ''legacy'', tcEnabled = False, tcToken = ''old'',
     tcProxyAddress = ''q:443'', tcReverseTunnelAddress = ''q:3024'',
     tcRoles = [], tcRoleMap = []\<rparr>"

definition legacyBackend :: backend where
  "legacyBackend = rootBackend\<lparr>bTrustedClusters := [legacyCluster]\<rparr>"

text \<open>
  The root cluster after \<open>leaf-east\<close> was enrolled, with its reverse tunnel missing.
\<close>

definition leafCluster :: TrustedCluster where
  "leafCluster = tempCluster\<lparr>tcName := ''leaf-east''\<rparr>"

definition noTunnelBackend :: backend where
  "noTunnelBackend = rootBackend
     \<lparr>bTrustedClusters := [leafCluster],
      bCertAuthorities := [(rootHostCA, True), (importedCA leafCluster leafHostCA, True),
                           (importedCA leafCluster leafUserCA, True)]\<rparr>"

definition leafTunnel :: ReverseTunnel where
  "leafTunnel = NewReverseTunnel ''leaf-east'' [''p:3024'']"

text \<open>The descriptor \<open>temp\<close> stored, trust not yet established.\<close>

definition pendingBackend :: backend where
  "pendingBackend = rootBackend\<lparr>bTrustedClusters := [tempCluster]\<rparr>"

text \<open>
  Two authorities of a cluster \<open>ghost\<close> with no descriptor (\<open>orphanBackend\<close>), and
  the same backend once an enabled descriptor \<open>ghost\<close> and its reverse tunnel are
  stored (\<open>claimedBackend\<close>).  The grace window of the collector is 100 ns.
\<close>

definition ghostHostCA :: CertAuthority where
  "ghostHostCA = \<lparr>caType = HostCA, caName = ''ghost'', caClusterName = ''ghost'',
     caRoles = [], caRoleMap = [], caTLSKeyPairs = []\<rparr>"

definition ghostUserCA :: CertAuthority where
  "ghostUserCA = \<lparr>caType = UserCA, caName = ''ghost'', caClusterName = ''ghost'',
     caRoles = [], caRoleMap = [], caTLSKeyPairs = []\<rparr>"

definition ghostCluster :: TrustedCluster where
  "ghostCluster = \<lparr>tcName = ''ghost'', tcEnabled = True, tcToken = ''g'',
     tcProxyAddress = ''g:443'', tcReverseTunnelAddress = ''g:3024'',
     tcRoles = [], tcRoleMap = []\<rparr>"

definition orphanBackend :: backend where
  "orphanBackend = rootBackend
     \<lparr>bCertAuthorities := [(rootHostCA, True), (ghostHostCA, True), (ghostUserCA, True)]\<rparr>"

definition claimedBackend :: backend where
  "claimedBackend = orphanBackend
     \<lparr>bTrustedClusters := [ghostCluster],
      bReverseTunnels := [NewReverseTunnel ''ghost'' [''g:3024'']]\<rparr>"

definition idleController :: trustController where
  "idleController = \<lparr>orphanAfter = 100, suspectedOrphanCAs = []\<rparr>"

definition trackingController :: trustController where
  "trackingController = \<lparr>orphanAfter = 100, suspectedOrphanCAs =
     [\<lparr>ca = ghostUserCA, since = 1000, seen = True\<rparr>,
      \<lparr>ca = ghostHostCA, since = 1000, seen = True\<rparr>]\<rparr>"



text \<open>The root cluster once \<open>temp\<close> has been enrolled and renamed to \<open>leaf-east\<close>.\<close>

definition enrolledBackend :: backend where
  "enrolledBackend = noTunnelBackend
     \<lparr>bReverseTunnels := [leafTunnel], bAudit := [TrustedClusterCreate]\<rparr>"

section \<open>Properties\<close>

subsection \<open>The wire envelope\<close>

lemma marshalLoop_Inr:
  "marshalLoop m S acc = Inr r \<Longrightarrow>
     \<exists>ds. r = acc @ ds \<and> list_all2 (\<lambda>c d. MarshalCertAuthority m c = Inr d) S ds"
proof (induction S arbitrary: acc r)
  case Nil
  then show ?case by simp
next
  case (Cons c S)
  from Cons.prems obtain d where d: "MarshalCertAuthority m c = Inr d"
    and r: "marshalLoop m S (acc @ [d]) = Inr r"
    by (auto split: sum.splits)
  from Cons.IH [OF r] obtain ds where "r = (acc @ [d]) @ ds"
    and "list_all2 (\<lambda>c d. MarshalCertAuthority m c = Inr d) S ds"
    by blast
  with d have "r = acc @ (d # ds)
      \<and> list_all2 (\<lambda>c d. MarshalCertAuthority m c = Inr d) (c # S) (d # ds)"
    by simp
  then show ?case by blast
qed

lemma unmarshalLoop_all2:
  "list_all2 (\<lambda>c d. UnmarshalCertAuthority m d = Inr c) S ds \<Longrightarrow>
     unmarshalLoop m ds acc = Inr (acc @ S)"
  by (induction S ds arbitrary: acc rule: list_all2_induct) simp_all

lemma roundtrip_loops:
  assumes inv: "\<forall>c\<in>set S. \<forall>d. MarshalCertAuthority m c = Inr d
                  \<longrightarrow> UnmarshalCertAuthority m d = Inr c"
    and raw: "marshalLoop m S [] = Inr ds"
  shows "unmarshalLoop m ds [] = Inr S"
proof -
  from marshalLoop_Inr [OF raw]
  have a: "list_all2 (\<lambda>c d. MarshalCertAuthority m c = Inr d) S ds" by simp
  have "list_all2 (\<lambda>c d. UnmarshalCertAuthority m d = Inr c) S ds"
    using a inv by (induction S ds rule: list_all2_induct) simp_all
  from unmarshalLoop_all2 [OF this] show ?thesis by simp
qed

text \<open>
  C10.  Round trip of the wire envelope: when the marshaller's unmarshal undoes its
  marshal on the authorities of a set \<open>S\<close>, then for the request (with any token) and
  for the response carrying \<open>S\<close>, the raw form converts to a native form whose raw form
  is the same raw form again: \<open>raw (native (raw S)) = raw S\<close>.
\<close>

theorem wire_roundtrip:
  assumes inv: "\<forall>c\<in>set S. \<forall>d. MarshalCertAuthority m c = Inr d
                  \<longrightarrow> UnmarshalCertAuthority m d = Inr c"
  shows "(\<forall>tok r. Request_ToRaw m \<lparr>reqToken = tok, reqCAs = S\<rparr> = Inr r \<longrightarrow>
            (\<exists>n. RequestRaw_ToNative m r = Inr n \<and> Request_ToRaw m n = Inr r))
       \<and> (\<forall>r. Response_ToRaw m \<lparr>respCAs = S\<rparr> = Inr r \<longrightarrow>
            (\<exists>n. ResponseRaw_ToNative m r = Inr n \<and> Response_ToRaw m n = Inr r))"
proof (intro conjI allI impI)
  fix tok r
  assume r: "Request_ToRaw m \<lparr>reqToken = tok, reqCAs = S\<rparr> = Inr r"
  then obtain ds where ds: "marshalLoop m S [] = Inr ds"
    and req: "r = \<lparr>rawReqToken = tok, rawReqCAs = ds\<rparr>"
    by (auto simp: Request_ToRaw_def split: sum.splits)
  have "RequestRaw_ToNative m r = Inr \<lparr>reqToken = tok, reqCAs = S\<rparr>"
    using roundtrip_loops [OF inv ds] req by (simp add: RequestRaw_ToNative_def)
  with r show "\<exists>n. RequestRaw_ToNative m r = Inr n \<and> Request_ToRaw m n = Inr r" by simp
next
  fix r
  assume r: "Response_ToRaw m \<lparr>respCAs = S\<rparr> = Inr r"
  then obtain ds where ds: "marshalLoop m S [] = Inr ds" and req: "r = \<lparr>rawRespCAs = ds\<rparr>"
    by (auto simp: Response_ToRaw_def split: sum.splits)
  have "ResponseRaw_ToNative m r = Inr \<lparr>respCAs = S\<rparr>"
    using roundtrip_loops [OF inv ds] req by (simp add: ResponseRaw_ToNative_def)
  with r show "\<exists>n. ResponseRaw_ToNative m r = Inr n \<and> Response_ToRaw m n = Inr r" by simp
qed

theorem wire_roundtrip_witness:
  "MarshalCertAuthority (tableMarshaler demoCodec) leafHostCA = Inr ''H-leaf''
   \<and> UnmarshalCertAuthority (tableMarshaler demoCodec) ''H-leaf'' = Inr leafHostCA
   \<and> MarshalCertAuthority (tableMarshaler demoCodec) leafUserCA = Inr ''U-leaf''
   \<and> UnmarshalCertAuthority (tableMarshaler demoCodec) ''U-leaf'' = Inr leafUserCA
   \<and> Request_ToRaw (tableMarshaler demoCodec)
        \<lparr>reqToken = ''tok'', reqCAs = [leafHostCA, leafUserCA]\<rparr>
       = Inr \<lparr>rawReqToken = ''tok'', rawReqCAs = [''H-leaf'', ''U-leaf'']\<rparr>
   \<and> (\<exists>n. RequestRaw_ToNative (tableMarshaler demoCodec)
              \<lparr>rawReqToken = ''tok'', rawReqCAs = [''H-leaf'', ''U-leaf'']\<rparr> = Inr n
          \<and> Request_ToRaw (tableMarshaler demoCodec) n
              = Inr \<lparr>rawReqToken = ''tok'', rawReqCAs = [''H-leaf'', ''U-leaf'']\<rparr>)
   \<and> Response_ToRaw (tableMarshaler demoCodec) \<lparr>respCAs = [leafHostCA, leafUserCA]\<rparr>
       = Inr \<lparr>rawRespCAs = [''H-leaf'', ''U-leaf'']\<rparr>
   \<and> (\<exists>n. ResponseRaw_ToNative (tableMarshaler demoCodec)
              \<lparr>rawRespCAs = [''H-leaf'', ''U-leaf'']\<rparr> = Inr n
          \<and> Response_ToRaw (tableMarshaler demoCodec) n
              = Inr \<lparr>rawRespCAs = [''H-leaf'', ''U-leaf'']\<rparr>)"
proof -
  let ?m = "tableMarshaler demoCodec"
  have m1: "MarshalCertAuthority ?m leafHostCA = Inr ''H-leaf''" by code_simp
  have u1: "UnmarshalCertAuthority ?m ''H-leaf'' = Inr leafHostCA" by code_simp
  have m2: "MarshalCertAuthority ?m leafUserCA = Inr ''U-leaf''" by code_simp
  have u2: "UnmarshalCertAuthority ?m ''U-leaf'' = Inr leafUserCA" by code_simp
  have inv: "\<forall>c\<in>set [leafHostCA, leafUserCA]. \<forall>d.
       MarshalCertAuthority ?m c = Inr d \<longrightarrow> UnmarshalCertAuthority ?m d = Inr c"
    using u1 u2 by (simp add: m1 m2)
  have r1: "Request_ToRaw ?m \<lparr>reqToken = ''tok'', reqCAs = [leafHostCA, leafUserCA]\<rparr>
       = Inr \<lparr>rawReqToken = ''tok'', rawReqCAs = [''H-leaf'', ''U-leaf'']\<rparr>" by code_simp
  have r2: "Response_ToRaw ?m \<lparr>respCAs = [leafHostCA, leafUserCA]\<rparr>
       = Inr \<lparr>rawRespCAs = [''H-leaf'', ''U-leaf'']\<rparr>" by code_simp
  note a = wire_roundtrip [OF inv, THEN conjunct1, rule_format, OF r1]
  note b = wire_roundtrip [OF inv, THEN conjunct2, rule_format, OF r2]
  show ?thesis by (intro conjI) (rule m1 u1 m2 u2 r1 r2 a b)+
qed

subsection \<open>validateTrustedClusterToken\<close>

text \<open>
  C5 (as amended).  Token validation fails with an access-denied error both when the
  token validator rejects the token and when the token's roles include neither
  \<open>RoleTrustedCluster\<close> nor \<open>LegacyClusterTokenType\<close>; in the first case the message
  is ``the remote server denied access: invalid cluster token'', in the second it is
  ``role does not match''.  Otherwise validation succeeds.
\<close>

theorem token_denied:
  "(\<forall>err. ValidateToken a token s = Inl err \<longrightarrow>
      validateTrustedClusterToken a token s =
        Some (Err AccessDenied ''the remote server denied access: invalid cluster token''))
   \<and> (\<forall>roles. ValidateToken a token s = Inr roles \<longrightarrow>
      validateTrustedClusterToken a token s =
        (if RoleTrustedCluster \<in> set roles \<or> LegacyClusterTokenType \<in> set roles then None
         else Some (Err AccessDenied ''role does not match'')))"
  by (simp add: validateTrustedClusterToken_def Include_def)

theorem token_denied_witness:
  "ValidateToken (memServices demoCodec) ''nope'' rootBackend = Inl (notFound ''token'')
   \<and> validateTrustedClusterToken (memServices demoCodec) ''nope'' rootBackend =
        Some (Err AccessDenied ''the remote server denied access: invalid cluster token'')
   \<and> ValidateToken (memServices demoCodec) ''tok-node'' rootBackend = Inr [RoleOther ''Node'']
   \<and> validateTrustedClusterToken (memServices demoCodec) ''tok-node'' rootBackend =
        Some (Err AccessDenied ''role does not match'')
   \<and> ValidateToken (memServices demoCodec) ''tok-tc'' rootBackend = Inr [RoleTrustedCluster]
   \<and> validateTrustedClusterToken (memServices demoCodec) ''tok-tc'' rootBackend = None"
proof -
  let ?a = "memServices demoCodec"
  have h1: "ValidateToken ?a ''nope'' rootBackend = Inl (notFound ''token'')"
    by code_simp
  have h2: "ValidateToken ?a ''tok-node'' rootBackend = Inr [RoleOther ''Node'']"
    by code_simp
  have h3: "ValidateToken ?a ''tok-tc'' rootBackend = Inr [RoleTrustedCluster]"
    by code_simp
  note c1 = token_denied [of ?a "''nope''" rootBackend, THEN conjunct1, rule_format, OF h1]
  have c2: "validateTrustedClusterToken ?a ''tok-node'' rootBackend =
        Some (Err AccessDenied ''role does not match'')"
    using token_denied [of ?a "''tok-node''" rootBackend, THEN conjunct2, rule_format, OF h2]
    by simp
  have c3: "validateTrustedClusterToken ?a ''tok-tc'' rootBackend = None"
    using token_denied [of ?a "''tok-tc''" rootBackend, THEN conjunct2, rule_format, OF h3]
    by simp
  show ?thesis by (intro conjI) (rule h1 h2 h3 c1 c2 c3)+
qed

text \<open>
  The two failure modes can be told apart: an unknown token and a token without the
  trusted-cluster role are refused with different messages.
\<close>

theorem token_messages_differ:
  "validateTrustedClusterToken (memServices demoCodec) ''nope'' rootBackend =
     Some (Err AccessDenied ''the remote server denied access: invalid cluster token'')
   \<and> validateTrustedClusterToken (memServices demoCodec) ''tok-node'' rootBackend =
     Some (Err AccessDenied ''role does not match'')
   \<and> validateTrustedClusterToken (memServices demoCodec) ''nope'' rootBackend
     \<noteq> validateTrustedClusterToken (memServices demoCodec) ''tok-node'' rootBackend"
  by code_simp

subsection \<open>UpsertTrustedCluster: error paths\<close>

text \<open>
  C6.  For a descriptor that exists and whose state change is allowed, a not-found
  error from activating (when enabling) or deactivating (when disabling) its
  authorities is returned by \<open>UpsertTrustedCluster\<close> as a bad-parameter error with
  the message ``enable only supported for Trusted Clusters created with Teleport 2.3
  and above'', not as the not-found error.
\<close>

theorem legacy_translation:
  assumes "lookupExisting a t s = Some existing"
    and "CanChangeStateTo a existing t = None"
    and "(if tcEnabled t then activateCertAuthority a t s else deactivateCertAuthority a t s)
           = (Some err, s1)"
    and "IsNotFound (Some err)"
  shows "UpsertTrustedCluster a t s =
           (Inl (Err BadParameter
              ''enable only supported for Trusted Clusters created with Teleport 2.3 and above''),
            s1)"
  using assms
  by (cases "tcEnabled t")
     (simp_all add: UpsertTrustedCluster_def enableExisting_def disableExisting_def
        legacyMessage_def)

theorem legacy_translation_witness:
  "UpsertTrustedCluster (memServices demoCodec) (legacyCluster\<lparr>tcEnabled := True\<rparr>) legacyBackend =
     (Inl (Err BadParameter
        ''enable only supported for Trusted Clusters created with Teleport 2.3 and above''),
      legacyBackend)
   \<and> UpsertTrustedCluster (memServices demoCodec) legacyCluster legacyBackend =
     (Inl (Err BadParameter
        ''enable only supported for Trusted Clusters created with Teleport 2.3 and above''),
      legacyBackend)"
proof -
  let ?a = "memServices demoCodec"
  let ?on = "legacyCluster\<lparr>tcEnabled := True\<rparr>"
  have ex1: "lookupExisting ?a ?on legacyBackend = Some legacyCluster" by code_simp
  have ex2: "lookupExisting ?a legacyCluster legacyBackend = Some legacyCluster" by code_simp
  have ok1: "CanChangeStateTo ?a legacyCluster ?on = None" by code_simp
  have ok2: "CanChangeStateTo ?a legacyCluster legacyCluster = None" by code_simp
  have act: "(if tcEnabled ?on then activateCertAuthority ?a ?on legacyBackend
              else deactivateCertAuthority ?a ?on legacyBackend) =
               (Some (notFound ''certificate authority''), legacyBackend)" by code_simp
  have deact: "(if tcEnabled legacyCluster
                then activateCertAuthority ?a legacyCluster legacyBackend
                else deactivateCertAuthority ?a legacyCluster legacyBackend) =
               (Some (notFound ''certificate authority''), legacyBackend)" by code_simp
  have nf: "IsNotFound (Some (notFound ''certificate authority''))" by code_simp
  show ?thesis
    by (rule conjI [OF legacy_translation [OF ex1 ok1 act nf]
                       legacy_translation [OF ex2 ok2 deact nf]])
qed

text \<open>
  C7.  When the descriptor does not exist yet and \<open>establishTrust\<close> fails, then
  \<open>UpsertTrustedCluster\<close> returns an error and leaves the backend state as it was:
  no authority is imported, no reverse tunnel is created, the descriptor is not
  persisted.  The error is the one of \<open>establishTrust\<close>, unless the check of the local
  roles, which comes first, has already failed with its own.
\<close>

theorem failed_handshake:
  assumes "lookupExisting a t s = None"
    and "establishTrust a t s = Inl e"
  shows "UpsertTrustedCluster a t s =
           (Inl (case checkLocalRoles a (tcRoleMap t) s of Some e' \<Rightarrow> e' | None \<Rightarrow> e), s)"
  using assms
  by (cases "checkLocalRoles a (tcRoleMap t) s")
     (simp_all add: UpsertTrustedCluster_def createRelationship_def)

theorem failed_handshake_witness:
  "lookupExisting (memServices demoCodec) (tempCluster\<lparr>tcToken := ''nope''\<rparr>) rootBackend = None
   \<and> establishTrust (memServices demoCodec) (tempCluster\<lparr>tcToken := ''nope''\<rparr>) rootBackend =
        Inl (Err AccessDenied ''the remote server denied access: invalid cluster token'')
   \<and> UpsertTrustedCluster (memServices demoCodec) (tempCluster\<lparr>tcToken := ''nope''\<rparr>) rootBackend =
        (Inl (Err AccessDenied ''the remote server denied access: invalid cluster token''),
         rootBackend)"
proof -
  let ?a = "memServices demoCodec"
  let ?t = "tempCluster\<lparr>tcToken := ''nope''\<rparr>"
  have h1: "lookupExisting ?a ?t rootBackend = None" by code_simp
  have h2: "establishTrust ?a ?t rootBackend =
              Inl (Err AccessDenied ''the remote server denied access: invalid cluster token'')"
    by code_simp
  have h3: "checkLocalRoles ?a (tcRoleMap ?t) rootBackend = None" by code_simp
  have "UpsertTrustedCluster ?a ?t rootBackend =
        (Inl (Err AccessDenied ''the remote server denied access: invalid cluster token''),
         rootBackend)"
    using failed_handshake [OF h1 h2] by (simp only: h3 option.case)
  with h1 h2 show ?thesis by (intro conjI)
qed

subsection \<open>DeleteTrustedCluster\<close>

text \<open>
  C8.  Given the local cluster name: \<open>DeleteTrustedCluster name\<close> fails with
  bad-parameter and leaves the state unchanged when \<open>name\<close> is the local cluster's
  name.  Otherwise it deletes the host CA, then the user CA, then the reverse tunnel,
  each on the state the step before left; a step that fails otherwise than with
  not-found ends the call with its error; after the three steps it deletes the
  descriptor and returns that step's result, and when that succeeded the
  \<open>TrustedClusterDelete\<close> audit event is emitted.
\<close>

theorem delete_steps:
  assumes "GetClusterName a s = Inr cn"
  shows "(cn = name \<longrightarrow>
           DeleteTrustedCluster a name s =
             (Some (Err BadParameter (selfDeleteMessage name)), s))
       \<and> (cn \<noteq> name \<longrightarrow>
           (\<forall>e1 s1 e2 s2 e3 s3 e4 s4.
              DeleteCertAuthority a \<lparr>Type = HostCA, DomainName = name\<rparr> s = (e1, s1)
              \<and> DeleteCertAuthority a \<lparr>Type = UserCA, DomainName = name\<rparr> s1 = (e2, s2)
              \<and> DeleteReverseTunnel a name s2 = (e3, s3)
              \<and> Presence_DeleteTrustedCluster a name s3 = (e4, s4)
              \<longrightarrow> DeleteTrustedCluster a name s =
                    (if e1 \<noteq> None \<and> \<not> IsNotFound e1 then (e1, s1)
                     else if e2 \<noteq> None \<and> \<not> IsNotFound e2 then (e2, s2)
                     else if e3 \<noteq> None \<and> \<not> IsNotFound e3 then (e3, s3)
                     else if e4 \<noteq> None then (e4, s4)
                     else (None, snd (EmitAuditEvent a TrustedClusterDelete s4)))))"
  using assms
  by (auto simp: DeleteTrustedCluster_def split: prod.splits option.splits)

theorem delete_steps_witness:
  "DeleteTrustedCluster (memServices demoCodec) ''root'' legacyBackend =
     (Some (Err BadParameter (selfDeleteMessage ''root'')), legacyBackend)
   \<and> DeleteTrustedCluster (memServices demoCodec) ''legacy'' legacyBackend =
     (None, rootBackend\<lparr>bAudit := [TrustedClusterDelete]\<rparr>)"
proof -
  let ?a = "memServices demoCodec"
  let ?nf = "Some (notFound ''certificate authority'')"
  let ?nft = "Some (notFound ''reverse tunnel'')"
  have cn: "GetClusterName ?a legacyBackend = Inr ''root''" by code_simp
  have d1: "DeleteCertAuthority ?a \<lparr>Type = HostCA, DomainName = ''legacy''\<rparr> legacyBackend =
              (?nf, legacyBackend)" by code_simp
  have d2: "DeleteCertAuthority ?a \<lparr>Type = UserCA, DomainName = ''legacy''\<rparr> legacyBackend =
              (?nf, legacyBackend)" by code_simp
  have d3: "DeleteReverseTunnel ?a ''legacy'' legacyBackend = (?nft, legacyBackend)"
    by code_simp
  have d4: "Presence_DeleteTrustedCluster ?a ''legacy'' legacyBackend = (None, rootBackend)"
    by code_simp
  have d5: "snd (EmitAuditEvent ?a TrustedClusterDelete rootBackend) =
              rootBackend\<lparr>bAudit := [TrustedClusterDelete]\<rparr>" by code_simp
  have nf1: "IsNotFound ?nf" by code_simp
  have nf2: "IsNotFound ?nft" by code_simp
  have ne: "''root'' \<noteq> ''legacy''" by simp
  have same: "''root'' = ''root''" by (rule refl)
  note a = delete_steps [OF cn, of "''root''", THEN conjunct1, THEN mp, OF same]
  have prem: "DeleteCertAuthority ?a \<lparr>Type = HostCA, DomainName = ''legacy''\<rparr> legacyBackend
                = (?nf, legacyBackend)
              \<and> DeleteCertAuthority ?a \<lparr>Type = UserCA, DomainName = ''legacy''\<rparr> legacyBackend
                = (?nf, legacyBackend)
              \<and> DeleteReverseTunnel ?a ''legacy'' legacyBackend = (?nft, legacyBackend)
              \<and> Presence_DeleteTrustedCluster ?a ''legacy'' legacyBackend = (None, rootBackend)"
    by (intro conjI) (rule d1 d2 d3 d4)+
  have b: "DeleteTrustedCluster ?a ''legacy'' legacyBackend =
             (None, rootBackend\<lparr>bAudit := [TrustedClusterDelete]\<rparr>)"
    using delete_steps [OF cn, of "''legacy''", THEN conjunct2, rule_format, OF ne prem]
    by (simp only: nf1 nf2 d5 simp_thms if_False if_True)
  from a b show ?thesis by (rule conjI)
qed

subsection \<open>ensureEnabled\<close>

text \<open>
  C2 (as amended).  \<open>ensureEnabled\<close> first attempts to activate both authorities.
  An activation error other than not-found is returned.  On not-found it reads the
  descriptor's authorities; a read error other than not-found is returned; only when
  they are absent (not-found) does it perform \<open>establishTrust\<close>, rename the descriptor
  when the first returned authority's cluster name differs (\<open>renamed\<close> is true exactly
  then) and import the authorities, returning the first error of these steps.  In
  every path that has not failed (activation succeeded, the authorities were present,
  or they were just imported) the last step creates the reverse tunnel, and its result
  is the result of the call.
\<close>

theorem ensureEnabled_order:
  assumes "activateCertAuthority a tc s = (err, s1)"
  shows
  "(err = None \<longrightarrow>
      ensureEnabled a tc s =
        (False, fst (createReverseTunnel a tc s1), tc, snd (createReverseTunnel a tc s1)))
   \<and> (err \<noteq> None \<and> \<not> IsNotFound err \<longrightarrow> ensureEnabled a tc s = (False, err, tc, s1))
   \<and> (IsNotFound err \<longrightarrow>
        (\<forall>cas. getCertAuthorities a tc s1 = Inr cas \<longrightarrow>
           ensureEnabled a tc s =
             (False, fst (createReverseTunnel a tc s1), tc, snd (createReverseTunnel a tc s1)))
      \<and> (\<forall>e2. getCertAuthorities a tc s1 = Inl e2 \<and> \<not> IsNotFound (Some e2) \<longrightarrow>
           ensureEnabled a tc s = (False, Some e2, tc, s1))
      \<and> (\<forall>e2. getCertAuthorities a tc s1 = Inl e2 \<and> IsNotFound (Some e2) \<longrightarrow>
           (\<forall>e3. establishTrust a tc s1 = Inl e3 \<longrightarrow>
              ensureEnabled a tc s = (False, Some e3, tc, s1))
         \<and> (\<forall>c cas e4 s2.
              establishTrust a tc s1 = Inr (c # cas)
              \<and> addCertAuthorities a (tc\<lparr>tcName := caClusterName c\<rparr>) (c # cas) s1 = (e4, s2)
              \<longrightarrow> ensureEnabled a tc s =
                (if e4 \<noteq> None
                 then (caClusterName c \<noteq> tcName tc, e4, tc\<lparr>tcName := caClusterName c\<rparr>, s2)
                 else (caClusterName c \<noteq> tcName tc,
                       fst (createReverseTunnel a (tc\<lparr>tcName := caClusterName c\<rparr>) s2),
                       tc\<lparr>tcName := caClusterName c\<rparr>,
                       snd (createReverseTunnel a (tc\<lparr>tcName := caClusterName c\<rparr>) s2))))))"
proof -
  have same: "\<And>n. n = tcName tc \<Longrightarrow> tc\<lparr>tcName := n\<rparr> = tc" by simp
  show ?thesis
    using assms
    apply (cases err)
     apply (simp add: ensureEnabled_def split: prod.splits)
    apply (cases "IsNotFound err")
     apply (auto simp: ensureEnabled_def firstClusterName_def Let_def same
                 split: prod.splits sum.splits option.splits)
    done
qed


theorem ensureEnabled_order_witness:
  "ensureEnabled (memServices demoCodec) leafCluster noTunnelBackend =
     (False, None, leafCluster, noTunnelBackend\<lparr>bReverseTunnels := [leafTunnel]\<rparr>)
   \<and> ensureEnabled (memServices demoCodec) tempCluster pendingBackend =
     (True, None, leafCluster,
      noTunnelBackend\<lparr>bReverseTunnels := [leafTunnel], bTrustedClusters := [tempCluster]\<rparr>)"
proof -
  let ?a = "memServices demoCodec"
  let ?nf = "Some (notFound ''certificate authority'')"
  have nf: "IsNotFound ?nf" by code_simp
  have act: "activateCertAuthority ?a leafCluster noTunnelBackend = (?nf, noTunnelBackend)"
    by code_simp
  have get: "getCertAuthorities ?a leafCluster noTunnelBackend =
               Inr [importedCA leafCluster leafUserCA, importedCA leafCluster leafHostCA]"
    by code_simp
  have crt: "createReverseTunnel ?a leafCluster noTunnelBackend =
               (None, noTunnelBackend\<lparr>bReverseTunnels := [leafTunnel]\<rparr>)"
    by code_simp
  note w1 = ensureEnabled_order [OF act, THEN conjunct2, THEN conjunct2, THEN mp, OF nf,
               THEN conjunct1, THEN spec, THEN mp, OF get]
  have a: "ensureEnabled ?a leafCluster noTunnelBackend =
     (False, None, leafCluster, noTunnelBackend\<lparr>bReverseTunnels := [leafTunnel]\<rparr>)"
    using w1 by (simp only: crt fst_conv snd_conv)
  have act2: "activateCertAuthority ?a tempCluster pendingBackend = (?nf, pendingBackend)"
    by code_simp
  have get2: "getCertAuthorities ?a tempCluster pendingBackend
                = Inl (notFound ''certificate authority'')"
    by code_simp
  have est: "establishTrust ?a tempCluster pendingBackend = Inr (leafHostCA # [leafUserCA])"
    by code_simp
  have nm: "tempCluster\<lparr>tcName := caClusterName leafHostCA\<rparr> = leafCluster" by code_simp
  have ren: "(caClusterName leafHostCA \<noteq> tcName tempCluster) = True" by code_simp
  have add: "addCertAuthorities ?a (tempCluster\<lparr>tcName := caClusterName leafHostCA\<rparr>)
               (leafHostCA # [leafUserCA]) pendingBackend =
               (None, noTunnelBackend\<lparr>bTrustedClusters := [tempCluster]\<rparr>)"
    by code_simp
  have crt2: "createReverseTunnel ?a leafCluster
                (noTunnelBackend\<lparr>bTrustedClusters := [tempCluster]\<rparr>) =
                (None, noTunnelBackend\<lparr>bReverseTunnels := [leafTunnel],
                                        bTrustedClusters := [tempCluster]\<rparr>)"
    by code_simp
  note w2 = ensureEnabled_order [OF act2, THEN conjunct2, THEN conjunct2, THEN mp, OF nf,
               THEN conjunct2, THEN conjunct2, THEN spec, THEN mp, OF conjI [OF get2 nf],
               THEN conjunct2, THEN spec, THEN spec, THEN spec, THEN spec, THEN mp,
               OF conjI [OF est add]]
  have b: "ensureEnabled ?a tempCluster pendingBackend =
     (True, None, leafCluster,
      noTunnelBackend\<lparr>bReverseTunnels := [leafTunnel], bTrustedClusters := [tempCluster]\<rparr>)"
    using w2 by (simp only: nm ren crt2 fst_conv snd_conv simp_thms if_False)
  from a b show ?thesis by (rule conjI)
qed

text \<open>
  With both authorities present (and active, so that activation answers not-found) and
  no reverse tunnel stored, \<open>ensureEnabled\<close> still creates the reverse tunnel.
\<close>

theorem tunnel_created_when_present:
  "getCertAuthorities (memServices demoCodec) leafCluster noTunnelBackend =
     Inr [importedCA leafCluster leafUserCA, importedCA leafCluster leafHostCA]
   \<and> bReverseTunnels noTunnelBackend = []
   \<and> ensureEnabled (memServices demoCodec) leafCluster noTunnelBackend =
       (False, None, leafCluster, noTunnelBackend\<lparr>bReverseTunnels := [leafTunnel]\<rparr>)"
  by code_simp

subsection \<open>The orphan collector\<close>

text \<open>
  Every suspect is created with \<open>seen\<close> set, and no loop of the cycle writes the
  flag of a stored suspect.  So the flag stays set from cycle to cycle, and the branch
  of the last loop that drops an unseen suspect is never taken.
\<close>

lemma resetSeen_slice: "resetSeen slice xs = slice"
  by (induction xs) simp_all

lemma processCAs_seen:
  "list_all seen nxt \<Longrightarrow> list_all seen (processCAs domainName tcs suspects t cas nxt)"
  by (induction cas arbitrary: nxt) simp_all

lemma scanTypes_seen:
  "list_all seen nxt \<Longrightarrow> scanTypes a domainName tcs suspects t types nxt s = Inr res
     \<Longrightarrow> list_all seen res"
proof (induction types arbitrary: nxt)
  case Nil
  then show ?case by simp
next
  case (Cons ty types)
  from Cons.prems(2) obtain cas where cas: "GetCertAuthorities a ty False s = Inr cas"
    and rest: "scanTypes a domainName tcs suspects t types
                 (processCAs domainName tcs suspects t cas nxt) s = Inr res"
    by (cases "GetCertAuthorities a ty False s") simp_all
  from Cons.IH [OF processCAs_seen [OF Cons.prems(1)] rest] show ?case .
qed

lemma sweepSuspects_seen:
  "list_all seen nxt \<Longrightarrow> list_all seen suspects
     \<Longrightarrow> list_all seen (fst (sweepSuspects a after t suspects nxt s))"
  by (induction suspects arbitrary: nxt s) (simp_all split: prod.splits)

lemma cycle_keeps_seen:
  assumes "list_all seen (suspectedOrphanCAs c)"
  shows "list_all seen (suspectedOrphanCAs (fst (snd (cycle a c t s))))"
proof -
  have sw: "list_all seen res"
    if "scanTypes a d tcs (suspectedOrphanCAs c) t [UserCA, HostCA] [] s1 = Inr nxt"
      and "sweepSuspects a (orphanAfter c) t (suspectedOrphanCAs c) nxt s1 = (res, s2)"
    for nxt s1 tcs d res s2
  proof -
    have "list_all seen ([] :: suspectedOrphanCA list)" by simp
    from scanTypes_seen [OF this that(1)] have "list_all seen nxt" .
    from sweepSuspects_seen [OF this assms, of a "orphanAfter c" t s1] that(2)
    show ?thesis by simp
  qed
  show ?thesis
    using assms
    by (auto simp: cycle_def resetSeen_slice Let_def simp del: scanTypes.simps
             split: sum.splits prod.splits option.splits intro: sw)
qed

text \<open>
  C1 (orphan-collector safety) at a concrete run.  A first cycle at \<open>t = 1000\<close> finds the
  two \<open>ghost\<close> authorities without a descriptor and tracks them.  Then a descriptor
  \<open>ghost\<close> is stored, and is in the backend for the whole second cycle at
  \<open>t = 1101\<close>, past the grace window of 100.  The second cycle skips both authorities
  in its scan, since the descriptor claims them, and yet deletes both: the \<open>seen\<close>
  flag they were stored with was never reset, because the reset loop writes a copy.
\<close>

theorem live_authorities_deleted:
  "cycle (memServices demoCodec) idleController 1000 orphanBackend
     = (None, trackingController, orphanBackend)
   \<and> AuthServices_GetTrustedClusters (memServices demoCodec) claimedBackend = Inr [ghostCluster]
   \<and> cycle (memServices demoCodec) trackingController 1101 claimedBackend
     = (None, idleController, claimedBackend\<lparr>bCertAuthorities := [(rootHostCA, True)]\<rparr>)"
  by code_simp

subsection \<open>addCertAuthorities\<close>

lemma foldl_AddRole:
  "foldl (\<lambda>ca r. AddRole r ca) c rs = c\<lparr>caRoles := caRoles c @ rs\<rparr>"
  by (induction rs arbitrary: c) (simp_all add: AddRole_def)

lemma importedCA_fields:
  "importedCA tc c =
     c\<lparr>caName := tcName tc,
       caRoles := (if caType c = UserCA then tcRoles tc else []),
       caRoleMap := (if caType c = UserCA then tcRoleMap tc else caRoleMap c)\<rparr>"
  by (simp add: importedCA_def Let_def foldl_AddRole)

lemma GetID_importedCA:
  "GetID (importedCA tc c) = \<lparr>Type = caType c, DomainName = tcName tc\<rparr>"
  by (simp add: importedCA_fields GetID_def)

lemma mem_CreateCertAuthority [simp]:
  "CreateCertAuthority (memServices codec) = memCreateCertAuthority"
  by (simp add: memServices_def)

lemma add_mem:
  "\<exists>k\<le>length cas.
     snd (addCertAuthorities (memServices codec) tc cas s) =
       s\<lparr>bCertAuthorities :=
           bCertAuthorities s @ map (\<lambda>c. (importedCA tc c, True)) (take k cas)\<rparr>
     \<and> (if k = length cas then fst (addCertAuthorities (memServices codec) tc cas s) = None
        else fst (addCertAuthorities (memServices codec) tc cas s) =
               Some (Err AlreadyExists ''certificate authority already exists'')
             \<and> hasCA \<lparr>Type = caType (cas ! k), DomainName = tcName tc\<rparr>
                  (bCertAuthorities s @ map (\<lambda>c. (importedCA tc c, True)) (take k cas)))"
  (is "\<exists>k\<le>length cas. ?P cas s k")
proof (induction cas arbitrary: s)
  case Nil
  show ?case by simp
next
  case (Cons c cs)
  show ?case
  proof (cases "hasCA (GetID (importedCA tc c)) (bCertAuthorities s)")
    case True
    then have p0: "?P (c # cs) s 0"
      by (simp add: memCreateCertAuthority_def GetID_importedCA)
    show ?thesis
    proof (rule exI [of _ 0], rule conjI)
      show "0 \<le> length (c # cs)" by simp
      show "?P (c # cs) s 0" by (rule p0)
    qed
  next
    case False
    let ?s1 = "s\<lparr>bCertAuthorities := bCertAuthorities s @ [(importedCA tc c, True)]\<rparr>"
    from Cons.IH [of ?s1] obtain k where k: "k \<le> length cs" and o: "?P cs ?s1 k"
      by blast
    have step: "addCertAuthorities (memServices codec) tc (c # cs) s
                  = addCertAuthorities (memServices codec) tc cs ?s1"
      using False by (simp add: memCreateCertAuthority_def)
    have pk: "?P (c # cs) s (Suc k)"
      using o unfolding step by (auto split: if_splits)
    show ?thesis
    proof (rule exI [of _ "Suc k"], rule conjI)
      show "Suc k \<le> length (c # cs)" using k by simp
      show "?P (c # cs) s (Suc k)" by (rule pk)
    qed
  qed
qed

text \<open>
  C4.  On the in-memory backend, for every descriptor and every list of authorities
  returned by the validation RPC: \<open>addCertAuthorities\<close> inserts, in order and as
  active authorities, a prefix of the list, each authority renamed to the descriptor's
  name, with its roles cleared, and with the descriptor's roles and role map exactly
  when it is a user CA (a host CA keeps no roles and keeps its own role map).  Either
  the whole list is inserted and the call succeeds, or the first authority not inserted
  collides with an authority already stored under its id, the call fails with
  already-exists, and no further authority is inserted.
\<close>

theorem import_create_only:
  "\<exists>k\<le>length cas.
     snd (addCertAuthorities (memServices codec) tc cas s) =
       s\<lparr>bCertAuthorities :=
           bCertAuthorities s @
           map (\<lambda>c. (c\<lparr>caName := tcName tc,
                         caRoles := (if caType c = UserCA then tcRoles tc else []),
                         caRoleMap := (if caType c = UserCA then tcRoleMap tc
                                       else caRoleMap c)\<rparr>, True))
             (take k cas)\<rparr>
     \<and> (if k = length cas then fst (addCertAuthorities (memServices codec) tc cas s) = None
        else fst (addCertAuthorities (memServices codec) tc cas s) =
               Some (Err AlreadyExists ''certificate authority already exists'')
             \<and> hasCA \<lparr>Type = caType (cas ! k), DomainName = tcName tc\<rparr>
                  (bCertAuthorities s @
                   map (\<lambda>c. (c\<lparr>caName := tcName tc,
                                 caRoles := (if caType c = UserCA then tcRoles tc else []),
                                 caRoleMap := (if caType c = UserCA then tcRoleMap tc
                                               else caRoleMap c)\<rparr>, True))
                     (take k cas)))"
  using add_mem [of cas codec tc s] by (simp only: importedCA_fields)

theorem import_create_only_witness:
  "(\<exists>k\<le>length [leafHostCA, leafUserCA].
     snd (addCertAuthorities (memServices demoCodec) (tempCluster\<lparr>tcName := ''root''\<rparr>)
            [leafHostCA, leafUserCA] rootBackend) =
       rootBackend\<lparr>bCertAuthorities :=
           bCertAuthorities rootBackend @
           map (\<lambda>c. (c\<lparr>caName := tcName (tempCluster\<lparr>tcName := ''root''\<rparr>),
                         caRoles := (if caType c = UserCA
                                     then tcRoles (tempCluster\<lparr>tcName := ''root''\<rparr>) else []),
                         caRoleMap := (if caType c = UserCA
                                       then tcRoleMap (tempCluster\<lparr>tcName := ''root''\<rparr>)
                                       else caRoleMap c)\<rparr>, True))
             (take k [leafHostCA, leafUserCA])\<rparr>
     \<and> (if k = length [leafHostCA, leafUserCA]
        then fst (addCertAuthorities (memServices demoCodec) (tempCluster\<lparr>tcName := ''root''\<rparr>)
                    [leafHostCA, leafUserCA] rootBackend) = None
        else fst (addCertAuthorities (memServices demoCodec) (tempCluster\<lparr>tcName := ''root''\<rparr>)
                    [leafHostCA, leafUserCA] rootBackend) =
               Some (Err AlreadyExists ''certificate authority already exists'')
             \<and> hasCA \<lparr>Type = caType ([leafHostCA, leafUserCA] ! k),
                       DomainName = tcName (tempCluster\<lparr>tcName := ''root''\<rparr>)\<rparr>
                  (bCertAuthorities rootBackend @
                   map (\<lambda>c. (c\<lparr>caName := tcName (tempCluster\<lparr>tcName := ''root''\<rparr>),
                                 caRoles := (if caType c = UserCA
                                             then tcRoles (tempCluster\<lparr>tcName := ''root''\<rparr>)
                                             else []),
                                 caRoleMap := (if caType c = UserCA
                                               then tcRoleMap (tempCluster\<lparr>tcName := ''root''\<rparr>)
                                               else caRoleMap c)\<rparr>, True))
                     (take k [leafHostCA, leafUserCA]))))
   \<and> addCertAuthorities (memServices demoCodec) (tempCluster\<lparr>tcName := ''root''\<rparr>)
        [leafHostCA, leafUserCA] rootBackend =
       (Some (Err AlreadyExists ''certificate authority already exists''), rootBackend)
   \<and> addCertAuthorities (memServices demoCodec) leafCluster
        [leafHostCA, leafUserCA] rootBackend =
       (None, rootBackend\<lparr>bCertAuthorities :=
          [(rootHostCA, True),
           (leafHostCA\<lparr>caRoles := []\<rparr>, True),
           (leafUserCA\<lparr>caRoles := [''admin''],
                       caRoleMap := [\<lparr>Remote = ''dev'', Local = [''admin'']\<rparr>]\<rparr>, True)]\<rparr>)"
proof -
  have a: "addCertAuthorities (memServices demoCodec) (tempCluster\<lparr>tcName := ''root''\<rparr>)
        [leafHostCA, leafUserCA] rootBackend =
       (Some (Err AlreadyExists ''certificate authority already exists''), rootBackend)"
    by code_simp
  have b: "addCertAuthorities (memServices demoCodec) leafCluster
        [leafHostCA, leafUserCA] rootBackend =
       (None, rootBackend\<lparr>bCertAuthorities :=
          [(rootHostCA, True),
           (leafHostCA\<lparr>caRoles := []\<rparr>, True),
           (leafUserCA\<lparr>caRoles := [''admin''],
                       caRoleMap := [\<lparr>Remote = ''dev'', Local = [''admin'']\<rparr>]\<rparr>, True)]\<rparr>)"
    by code_simp
  show ?thesis
    by (intro conjI) (rule import_create_only a b)+
qed

subsection \<open>EnsureTrustedClusters\<close>






subsection \<open>UpsertTrustedCluster applied twice\<close>

lemma mem_fields:
  "GetDomainName (memServices codec) = (\<lambda>s. Inr (bDomainName s))"
  "Presence_GetTrustedCluster (memServices codec) = memGetTrustedCluster"
  "Presence_UpsertTrustedCluster (memServices codec) = memUpsertTrustedCluster"
  "CanChangeStateTo (memServices codec) = memCanChangeStateTo"
  "GetRole (memServices codec) = memGetRole"
  "ContainsExpansion (memServices codec) = memContainsExpansion"
  "ActivateCertAuthority (memServices codec) = memActivateCertAuthority"
  "DeactivateCertAuthority (memServices codec) = memDeactivateCertAuthority"
  "UpsertReverseTunnel (memServices codec) = memUpsertReverseTunnel"
  "DeleteReverseTunnel (memServices codec) = memDeleteReverseTunnel"
  "EmitAuditEvent (memServices codec) = memEmitAuditEvent"
  by (simp_all add: memServices_def)

lemma add_mem_None:
  assumes "addCertAuthorities (memServices codec) tc cas s = (None, sA)"
  shows "sA = s\<lparr>bCertAuthorities :=
                 bCertAuthorities s @ map (\<lambda>c. (importedCA tc c, True)) cas\<rparr>"
proof -
  from add_mem [of cas codec tc s] obtain k where k: "k \<le> length cas"
    and st: "snd (addCertAuthorities (memServices codec) tc cas s) =
       s\<lparr>bCertAuthorities :=
           bCertAuthorities s @ map (\<lambda>c. (importedCA tc c, True)) (take k cas)\<rparr>"
    and r: "if k = length cas then fst (addCertAuthorities (memServices codec) tc cas s) = None
        else fst (addCertAuthorities (memServices codec) tc cas s) =
               Some (Err AlreadyExists ''certificate authority already exists'')
             \<and> hasCA \<lparr>Type = caType (cas ! k), DomainName = tcName tc\<rparr>
                  (bCertAuthorities s @ map (\<lambda>c. (importedCA tc c, True)) (take k cas))"
    by (elim exE conjE)
  from r assms have "k = length cas" by (simp split: if_splits)
  with st assms show ?thesis by simp
qed

lemma hasCA_append: "hasCA i (xs @ ys) = (hasCA i xs \<or> hasCA i ys)"
  by (simp add: hasCA_def list_ex_iff) blast

lemma hasCA_setCAState: "hasCA i (setCAState j st xs) = hasCA i xs"
  by (induction xs) (auto simp: hasCA_def setCAState_def split: if_splits)

lemma memDeactivate_obs:
  assumes "memDeactivateCertAuthority j s = (r, s')"
  shows "hasCA i (bCertAuthorities s') = hasCA i (bCertAuthorities s)
       \<and> bRoles s' = bRoles s \<and> bTrustedClusters s' = bTrustedClusters s"
proof (cases "hasCAInState j True (bCertAuthorities s)")
  case True
  with assms have "s' = s\<lparr>bCertAuthorities := setCAState j False (bCertAuthorities s)\<rparr>"
    by (simp add: memDeactivateCertAuthority_def)
  then show ?thesis by (simp add: hasCA_setCAState)
next
  case False
  with assms have "s' = s" by (simp add: memDeactivateCertAuthority_def)
  then show ?thesis by simp
qed

lemma deactivate_mem:
  assumes "deactivateCertAuthority (memServices codec) t sA = (r, sB)"
  shows "hasCA i (bCertAuthorities sB) = hasCA i (bCertAuthorities sA)
       \<and> bRoles sB = bRoles sA \<and> bTrustedClusters sB = bTrustedClusters sA"
proof -
  obtain r1 s1 where one:
    "memDeactivateCertAuthority \<lparr>Type = UserCA, DomainName = tcName t\<rparr> sA = (r1, s1)"
    by (cases "memDeactivateCertAuthority \<lparr>Type = UserCA, DomainName = tcName t\<rparr> sA") auto
  note o1 = memDeactivate_obs [OF one, of i]
  show ?thesis
  proof (cases r1)
    case (Some e)
    with assms one have "sB = s1"
      by (simp add: deactivateCertAuthority_def mem_fields)
    with o1 show ?thesis by simp
  next
    case None
    with assms one have two:
      "memDeactivateCertAuthority \<lparr>Type = HostCA, DomainName = tcName t\<rparr> s1 = (r, sB)"
      by (simp add: deactivateCertAuthority_def mem_fields)
    from memDeactivate_obs [OF two, of i] o1 show ?thesis by simp
  qed
qed

lemma createReverseTunnel_mem:
  assumes "createReverseTunnel (memServices codec) t sA = (r, sB)"
  shows "bCertAuthorities sB = bCertAuthorities sA
       \<and> bRoles sB = bRoles sA \<and> bTrustedClusters sB = bTrustedClusters sA"
proof -
  from assms have "sB = snd (memUpsertReverseTunnel
                      (NewReverseTunnel (tcName t) [tcReverseTunnelAddress t]) sA)"
    by (simp add: createReverseTunnel_def mem_fields)
  then show ?thesis by (simp add: memUpsertReverseTunnel_def)
qed

lemma persist_mem:
  assumes "persistAndAudit (memServices codec) t sB = (Inr tc, s1)"
  shows "tc = t \<and> bCertAuthorities s1 = bCertAuthorities sB \<and> bRoles s1 = bRoles sB
       \<and> bTrustedClusters s1 =
           (if list_ex (\<lambda>x. tcName x = tcName t) (bTrustedClusters sB)
            then map (\<lambda>x. if tcName x = tcName t then t else x) (bTrustedClusters sB)
            else bTrustedClusters sB @ [t])"
proof -
  have p: "persistAndAudit (memServices codec) t sB =
          (Inr t, snd (memEmitAuditEvent TrustedClusterCreate
                         (snd (memUpsertTrustedCluster t sB))))"
    by (simp add: persistAndAudit_def mem_fields memUpsertTrustedCluster_def
          memEmitAuditEvent_def)
  from assms have "(Inr t :: error + TrustedCluster,
                    snd (memEmitAuditEvent TrustedClusterCreate
                           (snd (memUpsertTrustedCluster t sB)))) = (Inr tc, s1)"
    unfolding p .
  then have tc: "tc = t"
    and s1: "s1 = snd (memEmitAuditEvent TrustedClusterCreate
                         (snd (memUpsertTrustedCluster t sB)))"
    by auto
  show ?thesis unfolding s1 tc
    by (simp add: memUpsertTrustedCluster_def memEmitAuditEvent_def)
qed

lemma find_upsert_other:
  assumes "tcName t \<noteq> n"
  shows "find (\<lambda>x. tcName x = n)
           (if list_ex (\<lambda>x. tcName x = tcName t) L
            then map (\<lambda>x. if tcName x = tcName t then t else x) L
            else L @ [t])
         = find (\<lambda>x. tcName x = n) L"
proof -
  have a: "find (\<lambda>x. tcName x = n) (map (\<lambda>x. if tcName x = tcName t then t else x) L)
             = find (\<lambda>x. tcName x = n) L"
    using assms by (induction L) auto
  have b: "find (\<lambda>x. tcName x = n) (L @ [t]) = find (\<lambda>x. tcName x = n) L"
    using assms by (induction L) auto
  show ?thesis by (simp add: a b)
qed

lemma checkLocalRolesOf_mem:
  "bRoles s' = bRoles s \<Longrightarrow>
     checkLocalRolesOf (memServices codec) ls s' = checkLocalRolesOf (memServices codec) ls s"
  by (induction ls) (simp_all add: mem_fields memGetRole_def)

lemma checkLocalRoles_mem:
  assumes "bRoles s' = bRoles s"
  shows "checkLocalRoles (memServices codec) rm s' = checkLocalRoles (memServices codec) rm s"
proof (induction rm)
  case Nil
  show ?case by simp
next
  case (Cons m rest)
  from checkLocalRolesOf_mem [OF assms, of codec "Local m"] Cons.IH
  show ?case by (simp only: checkLocalRoles.simps)
qed

lemma upsert_fresh:
  "lookupExisting a T st = None \<Longrightarrow>
     UpsertTrustedCluster a T st = createRelationship a (tcEnabled T) T st"
  by (cases "tcEnabled T") (simp_all add: UpsertTrustedCluster_def)

lemma createRelationship_success:
  assumes "createRelationship a en T s = (Inr tc, s1)"
  obtains c rest sA sB where
    "checkLocalRoles a (tcRoleMap T) s = None"
    "establishTrust a T s = Inr (c # rest)"
    "addCertAuthorities a (T\<lparr>tcName := caClusterName c\<rparr>) (c # rest) s = (None, sA)"
    "if en then createReverseTunnel a (T\<lparr>tcName := caClusterName c\<rparr>) sA = (None, sB)
     else deactivateCertAuthority a (T\<lparr>tcName := caClusterName c\<rparr>) sA = (None, sB)"
    "persistAndAudit a (T\<lparr>tcName := caClusterName c\<rparr>) sB = (Inr tc, s1)"
proof -
  from assms have roles: "checkLocalRoles a (tcRoleMap T) s = None"
    by (cases "checkLocalRoles a (tcRoleMap T) s") (simp_all add: createRelationship_def)
  from assms roles obtain cas where est: "establishTrust a T s = Inr cas"
    by (cases "establishTrust a T s") (simp_all add: createRelationship_def)
  from assms roles est obtain c rest where cas: "cas = c # rest"
    by (cases cas) (simp_all add: createRelationship_def firstClusterName_def)
  let ?T = "T\<lparr>tcName := caClusterName c\<rparr>"
  obtain r sA where add0: "addCertAuthorities a ?T (c # rest) s = (r, sA)"
    by (cases "addCertAuthorities a ?T (c # rest) s") auto
  from assms roles est cas add0 have r: "r = None"
    by (cases r) (simp_all add: createRelationship_def firstClusterName_def Let_def)
  obtain r2 sB where mid0:
    "(if en then createReverseTunnel a ?T sA else deactivateCertAuthority a ?T sA) = (r2, sB)"
    by (cases "if en then createReverseTunnel a ?T sA else deactivateCertAuthority a ?T sA") auto
  from assms roles est cas add0 r mid0 have r2: "r2 = None"
    by (cases r2; cases en)
       (simp_all add: createRelationship_def firstClusterName_def Let_def)
  from assms roles est cas add0 r mid0 r2
  have per: "persistAndAudit a ?T sB = (Inr tc, s1)"
    by (cases en) (simp_all add: createRelationship_def firstClusterName_def Let_def)
  from mid0 r2 have mid:
    "if en then createReverseTunnel a ?T sA = (None, sB)
     else deactivateCertAuthority a ?T sA = (None, sB)"
    by (cases en) simp_all
  from that [OF roles est [unfolded cas] add0 [unfolded r] mid per] show thesis .
qed

text \<open>
  C3 (as amended).  On the in-memory backend: when \<open>UpsertTrustedCluster T\<close>
  succeeds for a descriptor whose submitted name is not a stored descriptor's and
  differs from the name the remote cluster gave it (the rename case), then a second
  call with the same \<open>T\<close>, to which the responder answers as it did to the first,
  fails with already-exists at the create-only import of the authorities and leaves
  the backend exactly as the first call left it.
\<close>

theorem second_upsert_rename:
  assumes first: "UpsertTrustedCluster (memServices codec) T s = (Inr tc, s1)"
    and fresh: "lookupExisting (memServices codec) T s = None"
    and ren: "tcName tc \<noteq> tcName T"
    and same: "establishTrust (memServices codec) T s1 = establishTrust (memServices codec) T s"
  shows "UpsertTrustedCluster (memServices codec) T s1 =
           (Inl (Err AlreadyExists ''certificate authority already exists''), s1)"
proof -
  let ?M = "memServices codec"
  from first fresh have cr: "createRelationship ?M (tcEnabled T) T s = (Inr tc, s1)"
    by (simp add: upsert_fresh)
  from cr obtain c rest sA sB where
    roles: "checkLocalRoles ?M (tcRoleMap T) s = None"
    and est: "establishTrust ?M T s = Inr (c # rest)"
    and add: "addCertAuthorities ?M (T\<lparr>tcName := caClusterName c\<rparr>) (c # rest) s = (None, sA)"
    and mid: "if tcEnabled T
              then createReverseTunnel ?M (T\<lparr>tcName := caClusterName c\<rparr>) sA = (None, sB)
              else deactivateCertAuthority ?M (T\<lparr>tcName := caClusterName c\<rparr>) sA = (None, sB)"
    and per: "persistAndAudit ?M (T\<lparr>tcName := caClusterName c\<rparr>) sB = (Inr tc, s1)"
    by (rule createRelationship_success)
  let ?T = "T\<lparr>tcName := caClusterName c\<rparr>"
  let ?i = "GetID (importedCA ?T c)"
  from add_mem_None [OF add]
  have sA: "sA = s\<lparr>bCertAuthorities :=
                    bCertAuthorities s @ map (\<lambda>c. (importedCA ?T c, True)) (c # rest)\<rparr>" .
  have hasA: "hasCA ?i (bCertAuthorities sA)"
    by (simp add: sA hasCA_append) (simp add: hasCA_def)
  have obsB: "hasCA ?i (bCertAuthorities sB) = hasCA ?i (bCertAuthorities sA)
       \<and> bRoles sB = bRoles sA \<and> bTrustedClusters sB = bTrustedClusters sA"
  proof (cases "tcEnabled T")
    case True
    with mid have "createReverseTunnel ?M ?T sA = (None, sB)" by simp
    from createReverseTunnel_mem [OF this] show ?thesis by simp
  next
    case False
    with mid have "deactivateCertAuthority ?M ?T sA = (None, sB)" by simp
    from deactivate_mem [OF this, of ?i] show ?thesis .
  qed
  note p = persist_mem [OF per]
  from p have tc: "tc = ?T" by simp
  have has1: "hasCA ?i (bCertAuthorities s1)" using p obsB hasA by simp
  have r1: "bRoles s1 = bRoles s" using p obsB by (simp add: sA)
  have ne: "tcName ?T \<noteq> tcName T" using ren tc by simp
  have tcs1: "find (\<lambda>x. tcName x = tcName T) (bTrustedClusters s1)
                = find (\<lambda>x. tcName x = tcName T) (bTrustedClusters s)"
    using p obsB find_upsert_other [OF ne, of "bTrustedClusters sB"] by (simp add: sA)
  have look1: "lookupExisting ?M T s1 = None"
    using fresh tcs1
    by (simp add: lookupExisting_def mem_fields memGetTrustedCluster_def split: if_splits)
  have roles1: "checkLocalRoles ?M (tcRoleMap T) s1 = None"
    using checkLocalRoles_mem [OF r1] roles by simp
  have est1: "establishTrust ?M T s1 = Inr (c # rest)" using same est by simp
  have add1: "addCertAuthorities ?M ?T (c # rest) s1 =
                (Some (Err AlreadyExists ''certificate authority already exists''), s1)"
    using has1 by (simp add: memCreateCertAuthority_def)
  have "createRelationship ?M (tcEnabled T) T s1 =
          (Inl (Err AlreadyExists ''certificate authority already exists''), s1)"
    by (simp add: createRelationship_def roles1 est1 firstClusterName_def Let_def add1
          del: addCertAuthorities.simps)
  with upsert_fresh [OF look1] show ?thesis by simp
qed

theorem second_upsert_rename_witness:
  "UpsertTrustedCluster (memServices demoCodec) tempCluster rootBackend =
     (Inr leafCluster, enrolledBackend)
   \<and> lookupExisting (memServices demoCodec) tempCluster rootBackend = None
   \<and> tcName leafCluster \<noteq> tcName tempCluster
   \<and> establishTrust (memServices demoCodec) tempCluster enrolledBackend =
       establishTrust (memServices demoCodec) tempCluster rootBackend
   \<and> UpsertTrustedCluster (memServices demoCodec) tempCluster enrolledBackend =
     (Inl (Err AlreadyExists ''certificate authority already exists''), enrolledBackend)"
proof -
  let ?a = "memServices demoCodec"
  have first: "UpsertTrustedCluster ?a tempCluster rootBackend = (Inr leafCluster, enrolledBackend)"
    by code_simp
  have fresh: "lookupExisting ?a tempCluster rootBackend = None" by code_simp
  have ren: "tcName leafCluster \<noteq> tcName tempCluster" by code_simp
  have same: "establishTrust ?a tempCluster enrolledBackend =
              establishTrust ?a tempCluster rootBackend" by code_simp
  note second = second_upsert_rename [OF first fresh ren same]
  show ?thesis by (intro conjI) (rule first fresh ren same second)+
qed

text \<open>
  Calling twice is not calling once: the first call for \<open>temp\<close> succeeds and returns
  the descriptor renamed to \<open>leaf-east\<close>, the second call with the same descriptor
  returns an error.
\<close>

theorem second_upsert_fails:
  "UpsertTrustedCluster (memServices demoCodec) tempCluster rootBackend =
     (Inr leafCluster, enrolledBackend)
   \<and> UpsertTrustedCluster (memServices demoCodec) tempCluster enrolledBackend =
     (Inl (Err AlreadyExists ''certificate authority already exists''), enrolledBackend)"
  by code_simp

end
